theory Spec2Isabelle
  imports Main "HOL-Library.Word"
begin

unbundle bit_operations_syntax

text \<open>
  A model of \<^verbatim>\<open>kernel.c\<close>, the freestanding kernel that runs a falling-blocks game in
  VGA text mode: the keyboard poll, the timer set-up, the diffed frame buffer and the
  game engine (collision test, moves, rotation, scan for complete lines, removal of
  lines, scoring). Each C function is a HOL function of the same name on the state it
  reads and writes; where C leaves the behaviour undefined the function returns
  \<open>None\<close>. The definitions come first, the properties after them.
\<close>

section \<open>Keyboard driver\<close>

text \<open>
  The three file-level variables of the keyboard driver: \<^verbatim>\<open>static uint8_t scancode\<close>,
  \<^verbatim>\<open>static char keyb_char\<close> and \<^verbatim>\<open>static char keyb_pressed\<close>.
\<close>

record keyb =
  scancode :: "8 word"
  keyb_char :: char
  keyb_pressed :: "8 word"

text \<open>
  \<^verbatim>\<open>static const char scancode_table[128]\<close>: the initialiser lists 58 entries
  (indices 0 to 57); C fills the remaining 70 with zero. Runs of printable characters
  are written as string literals (a string is a list of characters); 27, backspace, tab,
  newline, quote, backquote and backslash are given by their codes.
\<close>

definition scancode_table :: "char list" where
  "scancode_table =
    [CHR 0x00, CHR 0x1B] @ ''1234567890-='' @ [CHR 0x08,
     CHR 0x09] @ ''qwertyuiop[]'' @ [CHR 0x0A, CHR 0x00]
    @ ''asdfghjkl;'' @ [CHR 0x27, CHR 0x60, CHR 0x00, CHR 0x5C]
    @ ''zxcvbnm,./'' @ [CHR 0x00, CHR ''*'', CHR 0x00, CHR '' '']
    @ replicate 70 (CHR 0x00)"

text \<open>
  \<^verbatim>\<open>read_keyb\<close>, statement by statement: reset the character and the flag, decode the
  high bit (masking the code when it is set), look the code up when it lies in 1..127,
  clear the pending code.
\<close>

definition read_keyb :: "keyb \<Rightarrow> keyb" where
  "read_keyb s =
    (let s1 = s\<lparr>keyb_char := CHR 0x00, keyb_pressed := 0\<rparr>;
         s2 = (if scancode s1 AND 0x80 \<noteq> 0
               then s1\<lparr>keyb_pressed := 0, scancode := scancode s1 AND 0x7F\<rparr>
               else if \<not> (scancode s1 AND 0x80 \<noteq> 0)
               then s1\<lparr>keyb_pressed := 1\<rparr>
               else s1);
         s3 = (if 0 < scancode s2 \<and> scancode s2 \<le> 127
               then s2\<lparr>keyb_char := scancode_table ! unat (scancode s2)\<rparr>
               else s2)
     in s3\<lparr>scancode := 0\<rparr>)"

section \<open>Timer driver\<close>

text \<open>
  Port output is the only effect of the timer set-up. A run of \<^verbatim>\<open>outb\<close> calls is
  modelled by the list of (port, value) pairs written so far, oldest first.
\<close>

type_synonym port_write = "16 word \<times> 8 word"

definition PIT_CHANNEL0 :: "16 word" where
  "PIT_CHANNEL0 = 0x40"

definition PIT_CMD :: "16 word" where
  "PIT_CMD = 0x43"

definition PIT_BASE_HZ :: "32 word" where
  "PIT_BASE_HZ = 1193182"

definition outb :: "16 word \<Rightarrow> 8 word \<Rightarrow> port_write list \<Rightarrow> port_write list" where
  "outb port val io = io @ [(port, val)]"

text \<open>
  \<^verbatim>\<open>pit_set_frequency(uint32_t hz)\<close>. The division is the unsigned 32-bit one; it is
  only reached with \<open>hz \<noteq> 0\<close>.
\<close>

definition pit_set_frequency :: "32 word \<Rightarrow> port_write list \<Rightarrow> port_write list" where
  "pit_set_frequency hz io =
    (if hz = 0 then io
     else
       let divisor = PIT_BASE_HZ div hz;
           divisor = (if divisor = 0 then 1 else divisor);
           lo = (ucast (divisor AND 0xFF) :: 8 word);
           hi = (ucast (drop_bit 8 divisor AND 0xFF) :: 8 word);
           io = outb PIT_CMD 0x34 io;
           io = outb PIT_CHANNEL0 lo io;
           io = outb PIT_CHANNEL0 hi io
       in io)"

section \<open>Frame buffer\<close>

text \<open>
  \<^verbatim>\<open>static short curr_frame[2000]\<close> and \<^verbatim>\<open>static short next_frame[2000]\<close> are lists
  of 16-bit cells. The memory-mapped text buffer \<^verbatim>\<open>VGA\<close> is volatile, so every store to
  it is an observable event: \<open>vga_writes\<close> records the stores in program order as
  (index, value) pairs.
\<close>

record display =
  curr_frame :: "16 word list"
  next_frame :: "16 word list"
  vga_writes :: "(nat \<times> 16 word) list"

text \<open>The body of the loop of \<^verbatim>\<open>draw_next_frame\<close> for one index.\<close>

definition draw_cell :: "nat \<Rightarrow> display \<Rightarrow> display" where
  "draw_cell i d =
    (if curr_frame d ! i \<noteq> next_frame d ! i
     then
       let d1 = d\<lparr>curr_frame := (curr_frame d)[i := next_frame d ! i]\<rparr>
       in d1\<lparr>vga_writes := vga_writes d1 @ [(i, curr_frame d1 ! i)]\<rparr>
     else d)"

text \<open>\<^verbatim>\<open>for (int i = 0; i < 2000; ++i)\<close> runs the body on 0, 1, ..., 1999 in order.\<close>

definition draw_next_frame :: "display \<Rightarrow> display" where
  "draw_next_frame d = fold draw_cell [0..<2000] d"

text \<open>The cells the flush has to touch: the indices where the two buffers differ.\<close>

definition changed_cells :: "display \<Rightarrow> nat list" where
  "changed_cells d = filter (\<lambda>i. curr_frame d ! i \<noteq> next_frame d ! i) [0..<2000]"

section \<open>Game engine: playfield and pieces\<close>

text \<open>
  \<^verbatim>\<open>int grid[GRID_SIZE_X][GRID_SIZE_Y]\<close> is a function from the pair of indices to the
  cell value; \<open>grid (x, y)\<close> is \<^verbatim>\<open>grid[x][y]\<close>. Only the indices with \<open>0 \<le> x < 10\<close> and
  \<open>0 \<le> y < 20\<close> are cells of the array: every access below is either guarded by the
  source's own bounds test or makes the model return \<open>None\<close>, because an access outside
  the array is undefined behaviour in C.

  \<^verbatim>\<open>int tetrominoe[4][2]\<close> is four (x, y) pairs. C \<^verbatim>\<open>int\<close> values are unbounded
  integers here: coordinates of a piece inside the grid stay below 40 in every
  computation modelled, so no 32-bit overflow is hidden.
\<close>

type_synonym cell = "int \<times> int"

type_synonym tetrominoe = "cell \<times> cell \<times> cell \<times> cell"

type_synonym grid = "cell \<Rightarrow> int"

definition GRID_SIZE_X :: int where
  "GRID_SIZE_X = 10"

definition GRID_SIZE_Y :: int where
  "GRID_SIZE_Y = 20"

definition PIECE_TYPES :: int where
  "PIECE_TYPES = 7"

definition PIECE_LINE :: int where
  "PIECE_LINE = 0"

definition PIECE_L :: int where
  "PIECE_L = 1"

definition PIECE_REVERSE_L :: int where
  "PIECE_REVERSE_L = 2"

definition PIECE_SQUARE :: int where
  "PIECE_SQUARE = 3"

definition PIECE_5 :: int where
  "PIECE_5 = 4"

definition PIECE_S :: int where
  "PIECE_S = 5"

definition PIECE_T :: int where
  "PIECE_T = 6"

definition MOVE_DOWN :: int where
  "MOVE_DOWN = 0"

definition MOVE_LEFT :: int where
  "MOVE_LEFT = 1"

definition MOVE_RIGHT :: int where
  "MOVE_RIGHT = 2"

definition STATE_CREATE_PIECE :: int where
  "STATE_CREATE_PIECE = 0"

definition STATE_ROW_REMOVE :: int where
  "STATE_ROW_REMOVE = 3"

definition INITIAL_FALL_DELAY :: int where
  "INITIAL_FALL_DELAY = 90"

text \<open>The four cells of a piece, in index order.\<close>

fun cells :: "tetrominoe \<Rightarrow> cell list" where
  "cells (c0, c1, c2, c3) = [c0, c1, c2, c3]"

text \<open>Whether an index pair denotes a cell of the 10 by 20 array.\<close>

fun cell_in_grid :: "cell \<Rightarrow> bool" where
  "cell_in_grid (x, y) = (0 \<le> x \<and> x < GRID_SIZE_X \<and> 0 \<le> y \<and> y < GRID_SIZE_Y)"

fun tetrominoe_in_grid :: "tetrominoe \<Rightarrow> bool" where
  "tetrominoe_in_grid (c0, c1, c2, c3) =
    (cell_in_grid c0 \<and> cell_in_grid c1 \<and> cell_in_grid c2 \<and> cell_in_grid c3)"

text \<open>The assignment \<^verbatim>\<open>grid[x][y] = v\<close>.\<close>

definition grid_set :: "grid \<Rightarrow> int \<Rightarrow> int \<Rightarrow> int \<Rightarrow> grid" where
  "grid_set grid x y v = grid((x, y) := v)"

text \<open>
  The block of four assignments \<^verbatim>\<open>grid[tetrominoe[i][0]][tetrominoe[i][1]] = v\<close> for
  i = 0, 1, 2, 3 in this order; the source uses it with 0 (to unmark the piece) and with
  the piece's colour (to mark it).
\<close>

fun set_cells :: "tetrominoe \<Rightarrow> int \<Rightarrow> grid \<Rightarrow> grid" where
  "set_cells ((x0, y0), (x1, y1), (x2, y2), (x3, y3)) v grid =
    grid_set (grid_set (grid_set (grid_set grid x0 y0 v) x1 y1 v) x2 y2 v) x3 y3 v"

text \<open>
  The conversion of an \<^verbatim>\<open>int\<close> to \<^verbatim>\<open>short\<close> in
  \<^verbatim>\<open>block_colour = grid[...][...]\<close>: the low 16 bits, read as a signed value when the
  colour is stored back into the \<^verbatim>\<open>int\<close> grid.
\<close>

definition to_short :: "int \<Rightarrow> int" where
  "to_short v = sint (word_of_int v :: 16 word)"

text \<open>
  \<^verbatim>\<open>check_tetrominoe_collision\<close>: the conjunction of the source, in its order. The
  grid is read only at indices that passed the bounds tests.
\<close>

fun check_tetrominoe_collision :: "tetrominoe \<Rightarrow> grid \<Rightarrow> bool" where
  "check_tetrominoe_collision ((x0, y0), (x1, y1), (x2, y2), (x3, y3)) grid =
    (x0 \<ge> 0 \<and> x0 < GRID_SIZE_X
     \<and> y0 \<ge> 0 \<and> y0 < GRID_SIZE_Y
     \<and> x1 \<ge> 0 \<and> x1 < GRID_SIZE_X
     \<and> y1 \<ge> 0 \<and> y1 < GRID_SIZE_Y
     \<and> x2 \<ge> 0 \<and> x2 < GRID_SIZE_X
     \<and> y2 \<ge> 0 \<and> y2 < GRID_SIZE_Y
     \<and> x3 \<ge> 0 \<and> x3 < GRID_SIZE_X
     \<and> y3 \<ge> 0 \<and> y3 < GRID_SIZE_Y
     \<and> grid (x0, y0) = 0
     \<and> grid (x1, y1) = 0
     \<and> grid (x2, y2) = 0
     \<and> grid (x3, y3) = 0)"

text \<open>
  \<^verbatim>\<open>setup_tetrominoe\<close> overwrites the array it is given; for a piece number outside
  0..6 the \<^verbatim>\<open>switch\<close> has no case and the array keeps its contents.
\<close>

definition setup_tetrominoe :: "tetrominoe \<Rightarrow> int \<Rightarrow> int \<Rightarrow> tetrominoe" where
  "setup_tetrominoe t piece offset_x =
    (if piece = PIECE_LINE then
       ((offset_x + 0, 1), (offset_x + 1, 1), (offset_x + 2, 1), (offset_x + 3, 1))
     else if piece = PIECE_L then
       ((offset_x + 0, 0), (offset_x + 2, 1), (offset_x + 1, 0), (offset_x + 2, 0))
     else if piece = PIECE_REVERSE_L then
       ((offset_x + 0, 0), (offset_x + 0, 1), (offset_x + 1, 0), (offset_x + 2, 0))
     else if piece = PIECE_SQUARE then
       ((offset_x + 1, 0), (offset_x + 2, 0), (offset_x + 1, 1), (offset_x + 2, 1))
     else if piece = PIECE_5 then
       ((offset_x + 1, 0), (offset_x + 2, 0), (offset_x + 0, 1), (offset_x + 1, 1))
     else if piece = PIECE_S then
       ((offset_x + 0, 0), (offset_x + 1, 0), (offset_x + 1, 1), (offset_x + 2, 1))
     else if piece = PIECE_T then
       ((offset_x + 0, 0), (offset_x + 1, 0), (offset_x + 2, 0), (offset_x + 1, 1))
     else t)"

text \<open>
  The colour table that \<^verbatim>\<open>tetris\<close> fills in: \<^verbatim>\<open>short block_colours[PIECE_TYPES]\<close>.
\<close>

definition block_colours_init :: "16 word list" where
  "block_colours_init = [0x0700, 0x0400, 0x0200, 0x0100, 0x0500, 0x0E00, 0x0300]"

text \<open>
  \<^verbatim>\<open>create_tetrominoe\<close> returns the flag together with the piece and the grid it
  leaves behind. Reading \<^verbatim>\<open>block_colours[piece]\<close> outside the table is undefined.
\<close>

definition create_tetrominoe ::
  "tetrominoe \<Rightarrow> grid \<Rightarrow> 16 word list \<Rightarrow> int \<Rightarrow> (int \<times> tetrominoe \<times> grid) option" where
  "create_tetrominoe t grid block_colours piece =
    (let t1 = setup_tetrominoe t piece 4
     in if check_tetrominoe_collision t1 grid
        then if 0 \<le> piece \<and> nat piece < length block_colours
             then Some (1, t1, set_cells t1 (sint (block_colours ! nat piece)) grid)
             else None
        else Some (0, t1, grid))"

text \<open>The candidate placement of \<^verbatim>\<open>move_tetrominoe\<close>: the copy shifted by one cell.\<close>

fun moved_placement :: "tetrominoe \<Rightarrow> int \<Rightarrow> tetrominoe" where
  "moved_placement ((x0, y0), (x1, y1), (x2, y2), (x3, y3)) direction =
    (if direction = MOVE_DOWN then ((x0, y0 + 1), (x1, y1 + 1), (x2, y2 + 1), (x3, y3 + 1))
     else if direction = MOVE_LEFT then ((x0 - 1, y0), (x1 - 1, y1), (x2 - 1, y2), (x3 - 1, y3))
     else if direction = MOVE_RIGHT then ((x0 + 1, y0), (x1 + 1, y1), (x2 + 1, y2), (x3 + 1, y3))
     else ((x0, y0), (x1, y1), (x2, y2), (x3, y3)))"

text \<open>
  \<^verbatim>\<open>move_tetrominoe\<close>: remember the colour of cell 0, unmark the four cells, test the
  candidate against the grid so cleared, commit it when the test passes, and mark the
  four cells of whichever placement is now current. The result is the returned flag,
  the piece and the grid. A piece with a cell outside the array makes the unguarded grid
  accesses undefined.
\<close>

definition move_tetrominoe ::
  "tetrominoe \<Rightarrow> grid \<Rightarrow> int \<Rightarrow> (int \<times> tetrominoe \<times> grid) option" where
  "move_tetrominoe t grid direction =
    (if \<not> tetrominoe_in_grid t then None
     else
       let new_tetrominoe = moved_placement t direction;
           block_colour = to_short (grid (fst (fst t), snd (fst t)));
           grid1 = set_cells t 0 grid;
           (moved, t1) = (if check_tetrominoe_collision new_tetrominoe grid1
                          then (1, new_tetrominoe) else (0, t));
           grid2 = set_cells t1 block_colour grid1
       in Some (moved, t1, grid2))"

text \<open>
  The chain \<^verbatim>\<open>lowest = a; if (lowest > b) lowest = b; ...\<close> of
  \<^verbatim>\<open>rotate_tetrominoe\<close>.
\<close>

definition lowest4 :: "int \<Rightarrow> int \<Rightarrow> int \<Rightarrow> int \<Rightarrow> int" where
  "lowest4 a b c d =
    (let l = a;
         l = (if l > b then b else l);
         l = (if l > c then c else l);
         l = (if l > d then d else l)
     in l)"

text \<open>The \<^verbatim>\<open>switch (type)\<close> that sets \<^verbatim>\<open>max_ext\<close>; no case, no value.\<close>

definition max_extent :: "int \<Rightarrow> int option" where
  "max_extent type =
    (if type = PIECE_LINE then Some 4
     else if type = PIECE_L then Some 3
     else if type = PIECE_REVERSE_L then Some 3
     else if type = PIECE_SQUARE then Some 2
     else if type = PIECE_5 then Some 3
     else if type = PIECE_S then Some 3
     else if type = PIECE_T then Some 3
     else None)"

text \<open>
  One cell of \<^verbatim>\<open>new_tetrominoe\<close>: into the local frame, the transform
  \<^verbatim>\<open>(tx, ty) -> (ty, 1-(tx-(max_ext-2)))\<close>, and back.
\<close>

definition rotate_cell :: "int \<Rightarrow> int \<Rightarrow> int \<Rightarrow> cell \<Rightarrow> cell" where
  "rotate_cell lowest_x lowest_y ext c =
    (let temp_x = fst c - lowest_x;
         temp_y = snd c - lowest_y;
         new_x = temp_y;
         new_y = 1 - (temp_x - (ext - 2))
     in (new_x + lowest_x, new_y + lowest_y))"

fun rotated_placement :: "tetrominoe \<Rightarrow> int \<Rightarrow> tetrominoe" where
  "rotated_placement ((x0, y0), (x1, y1), (x2, y2), (x3, y3)) ext =
    (let lowest_x = lowest4 x0 x1 x2 x3;
         lowest_y = lowest4 y0 y1 y2 y3
     in (rotate_cell lowest_x lowest_y ext (x0, y0),
         rotate_cell lowest_x lowest_y ext (x1, y1),
         rotate_cell lowest_x lowest_y ext (x2, y2),
         rotate_cell lowest_x lowest_y ext (x3, y3)))"

text \<open>
  \<^verbatim>\<open>rotate_tetrominoe\<close>: same unmark, test, commit-or-keep, mark protocol as the move;
  \<open>ext\<close> is the source's \<^verbatim>\<open>max_ext\<close> (the name is taken in HOL).
  With a type outside 0..6 \<^verbatim>\<open>max_ext\<close> is read uninitialised, which is undefined.
\<close>

definition rotate_tetrominoe :: "tetrominoe \<Rightarrow> grid \<Rightarrow> int \<Rightarrow> (tetrominoe \<times> grid) option" where
  "rotate_tetrominoe t grid type =
    (case max_extent type of
       None \<Rightarrow> None
     | Some ext \<Rightarrow>
         if \<not> tetrominoe_in_grid t then None
         else
           let new_tetrominoe = rotated_placement t ext;
               block_colour = to_short (grid (fst (fst t), snd (fst t)));
               grid1 = set_cells t 0 grid;
               t1 = (if check_tetrominoe_collision new_tetrominoe grid1
                     then new_tetrominoe else t);
               grid2 = set_cells t1 block_colour grid1
           in Some (t1, grid2))"

text \<open>
  Whether the rotation of \<open>t\<close> on \<open>grid\<close> is accepted: the test that
  \<^verbatim>\<open>rotate_tetrominoe\<close> makes, on the same candidate and the same cleared grid.
\<close>

definition rotation_accepted :: "tetrominoe \<Rightarrow> grid \<Rightarrow> int \<Rightarrow> bool" where
  "rotation_accepted t grid type =
    (case max_extent type of
       None \<Rightarrow> False
     | Some ext \<Rightarrow>
         check_tetrominoe_collision (rotated_placement t ext) (set_cells t 0 grid))"

text \<open>
  \<open>n\<close> calls of \<^verbatim>\<open>rotate_tetrominoe\<close> in a row on the same piece and grid; the flag
  tells whether every one of them was accepted.
\<close>

fun rotate_times :: "nat \<Rightarrow> tetrominoe \<Rightarrow> grid \<Rightarrow> int \<Rightarrow> (tetrominoe \<times> grid \<times> bool) option" where
  "rotate_times 0 t grid type = Some (t, grid, True)"
| "rotate_times (Suc n) t grid type =
    (case rotate_tetrominoe t grid type of
       None \<Rightarrow> None
     | Some (t1, grid1) \<Rightarrow>
         (case rotate_times n t1 grid1 type of
            None \<Rightarrow> None
          | Some (t2, grid2, ok) \<Rightarrow> Some (t2, grid2, rotation_accepted t grid type \<and> ok)))"

text \<open>
  A cell that stops a piece \<open>t\<close> on \<open>grid\<close>: it lies outside the grid, or it is occupied
  and is not one of the piece's own cells.
\<close>

definition blocked :: "tetrominoe \<Rightarrow> grid \<Rightarrow> cell \<Rightarrow> bool" where
  "blocked t grid c = (\<not> cell_in_grid c \<or> (c \<notin> set (cells t) \<and> grid c \<noteq> 0))"

text \<open>The bounding box of a piece and its translation, used to state where a piece ends up.\<close>

definition highest4 :: "int \<Rightarrow> int \<Rightarrow> int \<Rightarrow> int \<Rightarrow> int" where
  "highest4 a b c d = max a (max b (max c d))"

fun extent_x :: "tetrominoe \<Rightarrow> int" where
  "extent_x ((x0, y0), (x1, y1), (x2, y2), (x3, y3)) = highest4 x0 x1 x2 x3 - lowest4 x0 x1 x2 x3"

fun extent_y :: "tetrominoe \<Rightarrow> int" where
  "extent_y ((x0, y0), (x1, y1), (x2, y2), (x3, y3)) = highest4 y0 y1 y2 y3 - lowest4 y0 y1 y2 y3"

fun shift_down :: "int \<Rightarrow> tetrominoe \<Rightarrow> tetrominoe" where
  "shift_down k ((x0, y0), (x1, y1), (x2, y2), (x3, y3)) =
    ((x0, y0 + k), (x1, y1 + k), (x2, y2 + k), (x3, y3 + k))"

section \<open>Game engine: complete lines\<close>

text \<open>
  The inner loop of \<^verbatim>\<open>get_remove_lines\<close> leaves through \<^verbatim>\<open>goto next_line\<close> at the
  first empty cell of the row, so the row is recorded exactly when no cell of columns
  0..9 is empty.
\<close>

definition line_complete :: "grid \<Rightarrow> int \<Rightarrow> bool" where
  "line_complete grid y = list_all (\<lambda>x. grid (x, y) \<noteq> 0) [0..GRID_SIZE_X - 1]"

text \<open>
  One iteration of the outer loop on the pair (\<^verbatim>\<open>remove_lines\<close>, \<^verbatim>\<open>remove_count\<close>).
  The store \<^verbatim>\<open>remove_lines[remove_count++] = y\<close> is not guarded in the source; past
  the end of the array it is undefined.
\<close>

definition scan_line :: "grid \<Rightarrow> int \<Rightarrow> int list \<times> nat \<Rightarrow> (int list \<times> nat) option" where
  "scan_line grid y st =
    (case st of (remove_lines, remove_count) \<Rightarrow>
       if line_complete grid y
       then if remove_count < length remove_lines
            then Some (remove_lines[remove_count := y], remove_count + 1)
            else None
       else Some (remove_lines, remove_count))"

text \<open>
  \<^verbatim>\<open>get_remove_lines\<close>: rows 0 to 19 in order. The result is the array as left behind
  and the returned count.
\<close>

definition get_remove_lines :: "grid \<Rightarrow> int list \<Rightarrow> (int list \<times> nat) option" where
  "get_remove_lines grid remove_lines =
    fold (\<lambda>y st. Option.bind st (scan_line grid y)) [0..GRID_SIZE_Y - 1] (Some (remove_lines, 0))"

text \<open>The rows a scan has to report.\<close>

definition complete_lines :: "grid \<Rightarrow> int list" where
  "complete_lines grid = filter (line_complete grid) [0..GRID_SIZE_Y - 1]"

text \<open>\<^verbatim>\<open>// Remove the line\<close>: the loop that zeroes row \<open>r\<close>.\<close>

definition clear_line :: "grid \<Rightarrow> int \<Rightarrow> grid" where
  "clear_line grid r = fold (\<lambda>x g. grid_set g x r 0) [0..GRID_SIZE_X - 1] grid"

text \<open>The inner loop of \<^verbatim>\<open>// Move above lines down\<close>: row \<open>y\<close> becomes row \<open>y - 1\<close>.\<close>

definition copy_line_down :: "grid \<Rightarrow> int \<Rightarrow> grid" where
  "copy_line_down grid y = fold (\<lambda>x g. grid_set g x y (g (x, y - 1))) [0..GRID_SIZE_X - 1] grid"

text \<open>
  The outer loop \<^verbatim>\<open>for (int y = r; y != 0; y--)\<close>: y takes the values r, r-1, ..., 1.
  It is reached with \<open>0 \<le> r\<close> only (see \<open>remove_slot\<close>).
\<close>

definition move_lines_down :: "grid \<Rightarrow> int \<Rightarrow> grid" where
  "move_lines_down grid r = fold (\<lambda>y g. copy_line_down g y) (rev [1..r]) grid"

text \<open>
  One iteration of the loop of \<^verbatim>\<open>do_remove_lines\<close> on (grid, \<^verbatim>\<open>remove_lines\<close>,
  \<^verbatim>\<open>remove_count\<close>). A slot that is neither -1 nor a row of the grid makes the
  row accesses undefined.
\<close>

definition remove_slot ::
  "nat \<Rightarrow> grid \<times> int list \<times> nat \<Rightarrow> (grid \<times> int list \<times> nat) option" where
  "remove_slot i st =
    (case st of (grid, remove_lines, remove_count) \<Rightarrow>
       if \<not> i < length remove_lines then None
       else if remove_lines ! i = - 1 then Some (grid, remove_lines, remove_count)
       else if \<not> (0 \<le> remove_lines ! i \<and> remove_lines ! i < GRID_SIZE_Y) then None
       else Some (move_lines_down (clear_line grid (remove_lines ! i)) (remove_lines ! i),
                  remove_lines[i := - 1],
                  remove_count + 1))"

text \<open>\<^verbatim>\<open>do_remove_lines\<close>: slots 0 to 3 in order.\<close>

definition do_remove_lines :: "grid \<Rightarrow> int list \<Rightarrow> (grid \<times> int list \<times> nat) option" where
  "do_remove_lines grid remove_lines =
    fold (\<lambda>i st. Option.bind st (remove_slot i)) [0..<4] (Some (grid, remove_lines, 0))"

section \<open>Game engine: the row-remove step\<close>

text \<open>
  The local variables of \<^verbatim>\<open>tetris\<close> that the \<^verbatim>\<open>STATE_ROW_REMOVE\<close> case reads or
  writes. The three calls of \<^verbatim>\<open>set_numbers_display\<close> in that case only write the
  desired frame buffer and are not part of this record.
\<close>

record game =
  state :: int
  lines :: int
  level :: int
  score :: int
  fall_delay :: int
  grid :: grid
  remove_lines :: "int list"

definition row_remove_step :: "game \<Rightarrow> game option" where
  "row_remove_step s =
    (case do_remove_lines (grid s) (remove_lines s) of
       None \<Rightarrow> None
     | Some (grid1, remove_lines1, removed) \<Rightarrow>
         let lines_removed = int removed;
             lines1 = lines s + lines_removed;
             lines2 = (if lines1 > 9999 then 9999 else lines1);
             score1 = (if lines_removed = 1 then score s + 40 * (level s + 1)
                       else if lines_removed = 2 then score s + 100 * (level s + 1)
                       else if lines_removed = 3 then score s + 300 * (level s + 1)
                       else if lines_removed = 4 then score s + 1200 * (level s + 1)
                       else score s);
             score2 = (if score1 > 99999999 then 99999999 else score1);
             (level1, fall_delay1) =
               (if level s \<noteq> 9 \<and> lines2 \<ge> (level s * 10) + 10
                then (level s + 1, fall_delay s - 10)
                else (level s, fall_delay s))
         in Some (s\<lparr>state := STATE_CREATE_PIECE, lines := lines2, level := level1,
                    score := score2, fall_delay := fall_delay1,
                    grid := grid1, remove_lines := remove_lines1\<rparr>))"

text \<open>Sample states used to exercise the theorems below.\<close>

definition keyb_idle :: keyb where
  "keyb_idle = \<lparr>scancode = 0, keyb_char = CHR ''q'', keyb_pressed = 0\<rparr>"

definition empty_grid :: grid where
  "empty_grid = (\<lambda>c. 0)"

text \<open>
  A straight piece lying in row 18 on top of nine occupied cells of row 19, and the same
  piece lying on the floor (row 19).
\<close>

definition line_resting :: tetrominoe where
  "line_resting = ((3, 18), (4, 18), (5, 18), (6, 18))"

definition resting_grid :: grid where
  "resting_grid =
    (\<lambda>(x, y). if y = 19 \<and> 0 \<le> x \<and> x < 9 then 0x0400
              else if y = 18 \<and> 3 \<le> x \<and> x \<le> 6 then 0x0700 else 0)"

definition line_on_floor :: tetrominoe where
  "line_on_floor = ((3, 19), (4, 19), (5, 19), (6, 19))"

definition floor_grid :: grid where
  "floor_grid = (\<lambda>(x, y). if y = 19 \<and> 3 \<le> x \<and> x \<le> 6 then 0x0700 else 0)"

text \<open>
  The L piece and the square as \<^verbatim>\<open>create_tetrominoe\<close> puts them on the empty grid,
  and the L piece two rows lower.
\<close>

definition l_spawn :: tetrominoe where
  "l_spawn = ((4, 0), (6, 1), (5, 0), (6, 0))"

definition l_lower :: tetrominoe where
  "l_lower = ((4, 2), (6, 3), (5, 2), (6, 2))"

definition square_spawn :: tetrominoe where
  "square_spawn = ((5, 0), (6, 0), (5, 1), (6, 1))"

definition l_grid :: grid where
  "l_grid = set_cells l_spawn 0x0400 empty_grid"

definition l_lower_grid :: grid where
  "l_lower_grid = set_cells l_lower 0x0400 empty_grid"

definition square_grid :: grid where
  "square_grid = set_cells square_spawn 0x0100 empty_grid"

text \<open>A grid with every cell occupied, and grids with one and with two complete rows.\<close>

definition full_grid :: grid where
  "full_grid = (\<lambda>c. 0x0700)"

definition one_line_grid :: grid where
  "one_line_grid = (\<lambda>(x, y). if y = 19 \<and> 0 \<le> x \<and> x < 10 then 0x0200 else 0)"

definition two_lines_grid :: grid where
  "two_lines_grid =
    (\<lambda>(x, y). if (y = 18 \<or> y = 19) \<and> 0 \<le> x \<and> x < 10 then 0x0200
              else if y = 17 \<and> x = 0 then 0x0100 else 0)"

definition two_lines_after :: grid where
  "two_lines_after = (\<lambda>(x, y). if y = 19 \<and> x = 0 then 0x0100 else 0)"

text \<open>
  The L piece locked where it was created (cells (4,0), (5,0), (6,0) and (6,1)), its
  cell in row 1 completing that row; and the grid that \<^verbatim>\<open>do_remove_lines\<close> makes of it.
\<close>

definition locked_l_grid :: grid where
  "locked_l_grid =
    (\<lambda>(x, y). if y = 0 \<and> 4 \<le> x \<and> x \<le> 6 then 0x0400
              else if y = 1 \<and> x = 6 then 0x0400
              else if y = 1 \<and> 0 \<le> x \<and> x < 10 then 0x0200
              else 0)"

definition locked_l_after :: grid where
  "locked_l_after = (\<lambda>(x, y). if (y = 0 \<or> y = 1) \<and> 4 \<le> x \<and> x \<le> 6 then 0x0400 else 0)"

text \<open>Two games about to run the row-remove step.\<close>

definition game_near_cap :: game where
  "game_near_cap =
    \<lparr>state = STATE_ROW_REMOVE, lines = 9999, level = 9, score = 99999980, fall_delay = 0,
     grid = one_line_grid, remove_lines = [19, - 1, - 1, - 1]\<rparr>"

definition game_level_up :: game where
  "game_level_up =
    \<lparr>state = STATE_ROW_REMOVE, lines = 9, level = 0, score = 360,
     fall_delay = INITIAL_FALL_DELAY,
     grid = two_lines_grid, remove_lines = [18, 19, - 1, - 1]\<rparr>"

definition display_sample :: display where
  "display_sample =
    \<lparr>curr_frame = replicate 2000 0x0700,
     next_frame = (replicate 2000 0x0700)[1 := 0x0F23, 81 := 0x0423],
     vga_writes = []\<rparr>"

section \<open>Properties of the keyboard driver\<close>

lemma byte_split_high_bit: "(w :: 8 word) = (w AND 0x7F) OR (w AND 0x80)"
proof -
  have "w AND (0x7F OR 0x80) = (w AND 0x7F) OR (w AND 0x80)"
    by (rule bit.conj_disj_distrib)
  moreover have "(0x7F OR 0x80 :: 8 word) = - 1"
    by simp
  ultimately show ?thesis
    by (simp only: and.right_neutral)
qed

lemma low_bits_id: "(w :: 8 word) AND 0x80 = 0 \<Longrightarrow> w AND 0x7F = w"
  using byte_split_high_bit [of w] by simp

lemma low_bits_le: "(w :: 8 word) AND 0x7F \<le> 127"
  by (rule word_and_le1)

lemma scancode_table_0: "scancode_table ! 0 = CHR 0x00"
  by (simp add: scancode_table_def)

lemma read_keyb_char: "keyb_char (read_keyb s) = scancode_table ! unat (scancode s AND 0x7F)"
proof (cases "scancode s AND 0x80 = 0")
  case True
  then have m: "scancode s AND 0x7F = scancode s"
    by (rule low_bits_id)
  show ?thesis
  proof (cases "scancode s = 0")
    case True
    then show ?thesis
      by (simp add: read_keyb_def scancode_table_0)
  next
    case False
    then have "0 < scancode s"
      by (simp add: word_neq_0_conv)
    moreover have "scancode s \<le> 127"
      using low_bits_le [of "scancode s"] m by simp
    ultimately show ?thesis
      using \<open>scancode s AND 0x80 = 0\<close> m by (simp add: read_keyb_def)
  qed
next
  case False
  show ?thesis
  proof (cases "scancode s AND 0x7F = 0")
    case True
    with False show ?thesis
      by (simp add: read_keyb_def scancode_table_0)
  next
    case nz: False
    then have "0 < scancode s AND 0x7F"
      by (simp add: word_neq_0_conv)
    with False low_bits_le [of "scancode s"] show ?thesis
      by (simp add: read_keyb_def)
  qed
qed

lemma read_keyb_pressed:
  "keyb_pressed (read_keyb s) = (if scancode s AND 0x80 \<noteq> 0 then 0 else 1)"
  by (simp add: read_keyb_def Let_def)

text \<open>
  C8. For every pending scan code: a set high bit decodes as a release (flag 0), a clear
  high bit as a press (flag 1); the character is the entry of the 128-entry table at the
  code masked to its low 7 bits, and the entries the initialiser leaves out (58 to 127)
  are null. The pending code is cleared. 0x1E decodes to 'a' pressed, 0x9E to 'a'
  released.
\<close>

theorem read_keyb_decodes:
  "keyb_pressed (read_keyb s) = (if scancode s AND 0x80 \<noteq> 0 then 0 else 1)
   \<and> keyb_char (read_keyb s) = scancode_table ! unat (scancode s AND 0x7F)
   \<and> scancode (read_keyb s) = 0
   \<and> length scancode_table = 128
   \<and> drop 58 scancode_table = replicate 70 (CHR 0x00)
   \<and> keyb_char (read_keyb (s\<lparr>scancode := 0x1E\<rparr>)) = CHR ''a''
   \<and> keyb_pressed (read_keyb (s\<lparr>scancode := 0x1E\<rparr>)) = 1
   \<and> keyb_char (read_keyb (s\<lparr>scancode := 0x9E\<rparr>)) = CHR ''a''
   \<and> keyb_pressed (read_keyb (s\<lparr>scancode := 0x9E\<rparr>)) = 0"
proof -
  have "scancode (read_keyb s) = 0"
    by (simp add: read_keyb_def Let_def)
  moreover have "length scancode_table = 128"
    by (simp add: scancode_table_def)
  moreover have "drop 58 scancode_table = replicate 70 (CHR 0x00)"
    by (simp add: scancode_table_def)
  moreover have "keyb_char (read_keyb (s\<lparr>scancode := 0x1E\<rparr>)) = CHR ''a''"
    by (simp add: read_keyb_def scancode_table_def)
  moreover have "keyb_char (read_keyb (s\<lparr>scancode := 0x9E\<rparr>)) = CHR ''a''"
    by (simp add: read_keyb_def scancode_table_def)
  moreover have "keyb_pressed (read_keyb (s\<lparr>scancode := 0x1E\<rparr>)) = 1"
    by (simp add: read_keyb_def)
  moreover have "keyb_pressed (read_keyb (s\<lparr>scancode := 0x9E\<rparr>)) = 0"
    by (simp add: read_keyb_def)
  ultimately show ?thesis
    using read_keyb_char [of s] read_keyb_pressed [of s] by simp
qed

text \<open>
  C10. With no scan code pending (the shared byte is 0), \<^verbatim>\<open>read_keyb\<close> yields the null
  character and leaves the pending byte at 0, but sets the press flag to 1. The
  character, not the flag, tells that nothing arrived.
\<close>

theorem read_keyb_nothing_pending:
  assumes "scancode s = 0"
  shows "keyb_char (read_keyb s) = CHR 0x00
         \<and> scancode (read_keyb s) = 0
         \<and> keyb_pressed (read_keyb s) = 1"
  using assms by (simp add: read_keyb_def)

theorem read_keyb_nothing_pending_witness:
  "scancode keyb_idle = 0
   \<and> keyb_char (read_keyb keyb_idle) = CHR 0x00
   \<and> scancode (read_keyb keyb_idle) = 0
   \<and> keyb_pressed (read_keyb keyb_idle) = 1"
proof -
  have h: "scancode keyb_idle = 0"
    by (simp add: keyb_idle_def)
  show ?thesis
    using h read_keyb_nothing_pending [OF h] by simp
qed

section \<open>Properties of the timer driver\<close>

lemma unat_and_255: "unat ((w :: 32 word) AND 0xFF) = unat w mod 256"
proof -
  have "(0xFF :: 32 word) = mask 8"
    by (simp add: mask_eq_exp_minus_1)
  then have "w AND 0xFF = take_bit 8 w"
    by (simp only: take_bit_eq_mask)
  then show ?thesis
    by (simp add: unsigned_take_bit_eq take_bit_eq_mod unat_mod)
qed

lemma unat_low_byte: "unat (ucast ((w :: 32 word) AND 0xFF) :: 8 word) = unat w mod 256"
  by (simp only: unsigned_ucast_eq unat_and_255 take_bit_eq_mod) simp

lemma unat_high_byte:
  "unat (ucast (drop_bit 8 (w :: 32 word) AND 0xFF) :: 8 word) = unat w div 256 mod 256"
  by (simp only: unsigned_ucast_eq unat_and_255 unat_drop_bit_eq drop_bit_eq_div take_bit_eq_mod)
    (simp add: unat_div)

lemma low_byte: "(ucast ((w :: 32 word) AND 0xFF) :: 8 word) = of_nat (unat w mod 256)"
proof -
  have "(ucast (w AND 0xFF) :: 8 word) = of_nat (unat (ucast (w AND 0xFF) :: 8 word))"
    by simp
  then show ?thesis
    by (simp only: unat_low_byte)
qed

lemma high_byte:
  "(ucast (drop_bit 8 (w :: 32 word) AND 0xFF) :: 8 word) = of_nat (unat w div 256 mod 256)"
proof -
  have "(ucast (drop_bit 8 w AND 0xFF) :: 8 word)
      = of_nat (unat (ucast (drop_bit 8 w AND 0xFF) :: 8 word))"
    by simp
  then show ?thesis
    by (simp only: unat_high_byte)
qed

lemma unat_base_div: "unat (PIT_BASE_HZ div hz) = 1193182 div unat hz"
  by (simp add: PIT_BASE_HZ_def unat_div)

lemma unat_divisor:
  "unat (if PIT_BASE_HZ div hz = 0 then 1 else PIT_BASE_HZ div hz)
    = max 1 (1193182 div unat hz)"
proof (cases "PIT_BASE_HZ div hz = 0")
  case True
  then have "1193182 div unat hz = 0"
    using unat_base_div [of hz] by simp
  with True show ?thesis
    by simp
next
  case False
  then have "unat (PIT_BASE_HZ div hz) \<noteq> 0"
    by (simp add: unat_eq_0)
  then have "1 \<le> 1193182 div unat hz"
    using unat_base_div [of hz] by simp
  with False unat_base_div [of hz] show ?thesis
    by (simp add: max_def)
qed

text \<open>
  C9. For a non-zero frequency the divisor is 1193182 div hz, replaced by 1 when that
  quotient is 0; the function appends exactly three port writes, in this order: the mode
  command 0x34 to port 0x43, then the low byte and the high byte of the divisor to port
  0x40. For frequency 0 nothing is written.
\<close>

theorem pit_set_frequency_writes:
  "pit_set_frequency hz io =
    (if hz = 0 then io
     else io @ [(PIT_CMD, 0x34),
                (PIT_CHANNEL0, of_nat (max 1 (1193182 div unat hz) mod 256)),
                (PIT_CHANNEL0, of_nat (max 1 (1193182 div unat hz) div 256 mod 256))])"
proof (cases "hz = 0")
  case True
  then show ?thesis
    by (simp add: pit_set_frequency_def)
next
  case False
  define d where "d = (if PIT_BASE_HZ div hz = 0 then 1 else PIT_BASE_HZ div hz)"
  have d: "unat d = max 1 (1193182 div unat hz)"
    unfolding d_def by (rule unat_divisor)
  have lo: "(ucast (d AND 0xFF) :: 8 word) = of_nat (max 1 (1193182 div unat hz) mod 256)"
    by (simp only: low_byte d)
  have hi: "(ucast (drop_bit 8 d AND 0xFF) :: 8 word)
      = of_nat (max 1 (1193182 div unat hz) div 256 mod 256)"
    by (simp only: high_byte d)
  have eq: "pit_set_frequency hz io =
      io @ [(PIT_CMD, 0x34), (PIT_CHANNEL0, ucast (d AND 0xFF)),
            (PIT_CHANNEL0, ucast (drop_bit 8 d AND 0xFF))]"
    using False unfolding pit_set_frequency_def Let_def outb_def d_def by simp
  show ?thesis
    unfolding eq lo hi using False by simp
qed

section \<open>Properties of the frame buffer\<close>

lemma splice_nth:
  assumes "n < length xs" and "n < length ys"
  shows "(take n xs @ drop n ys) ! n = ys ! n"
  using assms by (simp add: nth_append)

lemma splice_update:
  assumes "n < length xs" and "n < length ys"
  shows "(take n xs @ drop n ys)[n := xs ! n] = take (Suc n) xs @ drop (Suc n) ys"
proof -
  have "drop n ys = ys ! n # drop (Suc n) ys"
    using assms(2) by (simp add: Cons_nth_drop_Suc)
  then show ?thesis
    using assms(1) by (simp add: take_Suc_conv_app_nth list_update_append)
qed

lemma splice_same:
  assumes "n < length xs" and "n < length ys" and "ys ! n = xs ! n"
  shows "take n xs @ drop n ys = take (Suc n) xs @ drop (Suc n) ys"
proof -
  have "drop n ys = ys ! n # drop (Suc n) ys"
    using assms(2) by (simp add: Cons_nth_drop_Suc)
  then show ?thesis
    using assms(1,3) by (simp add: take_Suc_conv_app_nth)
qed

text \<open>
  Loop invariant of the flush: after the indices below \<open>n\<close>, the shown buffer agrees
  with the desired one below \<open>n\<close> and is untouched from \<open>n\<close> on, and the device has
  received one store for every index below \<open>n\<close> where the buffers differed.
\<close>

lemma draw_prefix:
  assumes "n \<le> length (curr_frame d)" and "n \<le> length (next_frame d)"
  shows "fold draw_cell [0..<n] d =
    d\<lparr>curr_frame := take n (next_frame d) @ drop n (curr_frame d),
      vga_writes := vga_writes d @
        map (\<lambda>i. (i, next_frame d ! i))
          (filter (\<lambda>i. curr_frame d ! i \<noteq> next_frame d ! i) [0..<n])\<rparr>"
  using assms
proof (induction n)
  case 0
  then show ?case
    by simp
next
  case (Suc n)
  then have lt: "n < length (next_frame d)" "n < length (curr_frame d)"
    by simp_all
  have ih: "fold draw_cell [0..<n] d =
    d\<lparr>curr_frame := take n (next_frame d) @ drop n (curr_frame d),
      vga_writes := vga_writes d @
        map (\<lambda>i. (i, next_frame d ! i))
          (filter (\<lambda>i. curr_frame d ! i \<noteq> next_frame d ! i) [0..<n])\<rparr>"
    using Suc by simp
  have step: "fold draw_cell [0..<Suc n] d = draw_cell n (fold draw_cell [0..<n] d)"
    by simp
  show ?case
  proof (cases "curr_frame d ! n = next_frame d ! n")
    case True
    then show ?thesis
      unfolding step ih using lt
      by (simp add: draw_cell_def splice_nth splice_same [symmetric])
  next
    case False
    then show ?thesis
      unfolding step ih using lt
      by (simp add: draw_cell_def Let_def splice_nth splice_update nth_append)
  qed
qed

lemma draw_next_frame_result:
  assumes "length (curr_frame d) = 2000" and "length (next_frame d) = 2000"
  shows "draw_next_frame d =
    d\<lparr>curr_frame := next_frame d,
      vga_writes := vga_writes d @ map (\<lambda>i. (i, next_frame d ! i)) (changed_cells d)\<rparr>"
  using assms draw_prefix [of 2000 d] by (simp add: draw_next_frame_def changed_cells_def)

text \<open>
  C7. On two 2000-cell buffers the flush stores to the display exactly the cells whose
  desired value differs from the shown one (each once, in index order, with the desired
  value), the shown buffer changes at those cells only, the desired buffer is not
  changed, and afterwards the shown buffer equals the desired buffer.
\<close>

theorem draw_next_frame_flush:
  assumes "length (curr_frame d) = 2000" and "length (next_frame d) = 2000"
  shows "vga_writes (draw_next_frame d)
           = vga_writes d @ map (\<lambda>i. (i, next_frame d ! i)) (changed_cells d)
         \<and> set (changed_cells d) = {i. i < 2000 \<and> curr_frame d ! i \<noteq> next_frame d ! i}
         \<and> curr_frame (draw_next_frame d)
           = map (\<lambda>i. if i \<in> set (changed_cells d) then next_frame d ! i else curr_frame d ! i)
               [0..<2000]
         \<and> curr_frame (draw_next_frame d) = next_frame d
         \<and> next_frame (draw_next_frame d) = next_frame d"
proof -
  have r: "draw_next_frame d =
    d\<lparr>curr_frame := next_frame d,
      vga_writes := vga_writes d @ map (\<lambda>i. (i, next_frame d ! i)) (changed_cells d)\<rparr>"
    using assms by (rule draw_next_frame_result)
  have c: "set (changed_cells d) = {i. i < 2000 \<and> curr_frame d ! i \<noteq> next_frame d ! i}"
    by (auto simp: changed_cells_def)
  have "next_frame d
      = map (\<lambda>i. if i \<in> set (changed_cells d) then next_frame d ! i else curr_frame d ! i)
          [0..<2000]"
    using assms by (intro nth_equalityI) (auto simp: c)
  with r c show ?thesis
    by simp
qed

theorem draw_next_frame_flush_witness:
  "length (curr_frame display_sample) = 2000
   \<and> length (next_frame display_sample) = 2000
   \<and> curr_frame (draw_next_frame display_sample) = next_frame display_sample
   \<and> map fst (vga_writes (draw_next_frame display_sample)) = changed_cells display_sample"
proof -
  have c: "length (curr_frame display_sample) = 2000"
    by (simp add: display_sample_def)
  have n: "length (next_frame display_sample) = 2000"
    by (simp add: display_sample_def)
  have v: "vga_writes display_sample = []"
    by (simp add: display_sample_def)
  note flush = draw_next_frame_flush [OF c n]
  have w: "map fst (vga_writes (draw_next_frame display_sample)) = changed_cells display_sample"
    unfolding flush [THEN conjunct1] v by (simp add: comp_def)
  have s: "curr_frame (draw_next_frame display_sample) = next_frame display_sample"
    using flush by blast
  from c n s w show ?thesis
    by blast
qed

section \<open>Properties of the collision test and of moves\<close>

lemma tetrominoe_exhaust:
  obtains x0 y0 x1 y1 x2 y2 x3 y3 where "t = ((x0, y0), (x1, y1), (x2, y2), (x3, y3))"
proof (cases t rule: prod_cases4)
  case (fields c0 c1 c2 c3)
  then show ?thesis
    using that [of "fst c0" "snd c0" "fst c1" "snd c1" "fst c2" "snd c2" "fst c3" "snd c3"]
    by simp
qed

lemma set_cells_apply:
  "set_cells t v g c = (if c \<in> set (cells t) then v else g c)"
proof -
  obtain x0 y0 x1 y1 x2 y2 x3 y3 where t: "t = ((x0, y0), (x1, y1), (x2, y2), (x3, y3))"
    by (rule tetrominoe_exhaust)
  show ?thesis
    unfolding t by (simp add: grid_set_def)
qed

lemma check_iff:
  "check_tetrominoe_collision t g \<longleftrightarrow>
    (\<forall>(x, y) \<in> set (cells t). 0 \<le> x \<and> x < 10 \<and> 0 \<le> y \<and> y < 20 \<and> g (x, y) = 0)"
proof -
  obtain x0 y0 x1 y1 x2 y2 x3 y3 where t: "t = ((x0, y0), (x1, y1), (x2, y2), (x3, y3))"
    by (rule tetrominoe_exhaust)
  show ?thesis
    unfolding t by (simp add: GRID_SIZE_X_def GRID_SIZE_Y_def) blast
qed

lemma check_cleared_iff:
  "check_tetrominoe_collision t (set_cells own 0 g) \<longleftrightarrow>
    (\<forall>(x, y) \<in> set (cells t). 0 \<le> x \<and> x < 10 \<and> 0 \<le> y \<and> y < 20
        \<and> ((x, y) \<in> set (cells own) \<or> g (x, y) = 0))"
  unfolding check_iff by (auto simp: set_cells_apply)

lemma move_tetrominoe_flag:
  assumes "tetrominoe_in_grid t"
  shows "map_option fst (move_tetrominoe t g d) =
    Some (if check_tetrominoe_collision (moved_placement t d) (set_cells t 0 g) then 1 else 0)"
  using assms
  by (cases "check_tetrominoe_collision (moved_placement t d) (set_cells t 0 g)")
    (simp_all add: move_tetrominoe_def Let_def)

lemma rotate_tetrominoe_piece:
  assumes "tetrominoe_in_grid t" and "max_extent ty = Some m"
  shows "map_option fst (rotate_tetrominoe t g ty) =
    Some (if check_tetrominoe_collision (rotated_placement t m) (set_cells t 0 g)
          then rotated_placement t m else t)"
  using assms
  by (cases "check_tetrominoe_collision (rotated_placement t m) (set_cells t 0 g)")
    (simp_all add: rotate_tetrominoe_def Let_def)

text \<open>
  C1. For every placement and every grid, the collision test succeeds exactly when each
  of the four cells has 0 \<le> x < 10, 0 \<le> y < 20 and an empty grid cell. Tested against
  the grid in which a piece \<open>own\<close> has been unmarked, the cells of \<open>own\<close> never block.
  That cleared grid is what the move and the rotation hand to the test: their outcome
  is the test of the candidate on \<open>set_cells own 0 g\<close>.
\<close>

theorem check_tetrominoe_collision_spec:
  "(check_tetrominoe_collision t g \<longleftrightarrow>
      (\<forall>(x, y) \<in> set (cells t). 0 \<le> x \<and> x < 10 \<and> 0 \<le> y \<and> y < 20 \<and> g (x, y) = 0))
   \<and> (check_tetrominoe_collision t (set_cells own 0 g) \<longleftrightarrow>
      (\<forall>(x, y) \<in> set (cells t). 0 \<le> x \<and> x < 10 \<and> 0 \<le> y \<and> y < 20
          \<and> ((x, y) \<in> set (cells own) \<or> g (x, y) = 0)))
   \<and> (tetrominoe_in_grid own \<longrightarrow>
        map_option fst (move_tetrominoe own g d) =
          Some (if check_tetrominoe_collision (moved_placement own d) (set_cells own 0 g)
                then 1 else 0))
   \<and> (tetrominoe_in_grid own \<and> max_extent ty = Some m \<longrightarrow>
        map_option fst (rotate_tetrominoe own g ty) =
          Some (if check_tetrominoe_collision (rotated_placement own m) (set_cells own 0 g)
                then rotated_placement own m else own))"
  using check_iff [of t g] check_cleared_iff [of t own g]
    move_tetrominoe_flag [of own g d] rotate_tetrominoe_piece [of own ty m g]
  by blast

theorem check_tetrominoe_collision_spec_witness:
  "check_tetrominoe_collision ((3, 17), (4, 17), (5, 17), (6, 17)) resting_grid
   \<and> \<not> check_tetrominoe_collision line_resting resting_grid
   \<and> check_tetrominoe_collision line_resting (set_cells line_resting 0 resting_grid)
   \<and> tetrominoe_in_grid line_resting
   \<and> map_option fst (move_tetrominoe line_resting resting_grid MOVE_LEFT) = Some 1"
proof -
  note spec = check_tetrominoe_collision_spec
      [of _ resting_grid line_resting MOVE_LEFT PIECE_LINE 4]
  have a: "check_tetrominoe_collision ((3, 17), (4, 17), (5, 17), (6, 17)) resting_grid"
    unfolding spec [of "((3, 17), (4, 17), (5, 17), (6, 17))", THEN conjunct1]
    by (simp add: resting_grid_def)
  have b: "\<not> check_tetrominoe_collision line_resting resting_grid"
    unfolding spec [of line_resting, THEN conjunct1]
    by (simp add: resting_grid_def line_resting_def)
  have c: "check_tetrominoe_collision line_resting (set_cells line_resting 0 resting_grid)"
    unfolding spec [of line_resting, THEN conjunct2, THEN conjunct1]
    by (simp add: resting_grid_def line_resting_def)
  have d: "tetrominoe_in_grid line_resting"
    by (simp add: line_resting_def GRID_SIZE_X_def GRID_SIZE_Y_def)
  have "check_tetrominoe_collision (moved_placement line_resting MOVE_LEFT)
      (set_cells line_resting 0 resting_grid)"
    unfolding spec [of "moved_placement line_resting MOVE_LEFT", THEN conjunct2, THEN conjunct1]
    by (simp add: resting_grid_def line_resting_def MOVE_LEFT_def MOVE_DOWN_def)
  then have e: "map_option fst (move_tetrominoe line_resting resting_grid MOVE_LEFT) = Some 1"
    using d spec [of line_resting] by simp
  from a b c d e show ?thesis
    by blast
qed

lemma to_short_sint: "to_short (sint (c :: 16 word)) = sint c"
  by (simp add: to_short_def)

lemma set_cells_restore:
  assumes "\<forall>c \<in> set (cells t). g c = v"
  shows "set_cells t v (set_cells t 0 g) = g"
proof (rule ext)
  fix c
  show "set_cells t v (set_cells t 0 g) c = g c"
    using assms by (simp add: set_cells_apply)
qed

text \<open>
  A move whose candidate fails the test returns 0 and leaves the piece and the grid as
  they were, provided the four cells of the piece hold one colour that fits a
  \<^verbatim>\<open>short\<close>.
\<close>

lemma move_rejected:
  assumes "tetrominoe_in_grid t"
    and "\<forall>c \<in> set (cells t). g c = sint (col :: 16 word)"
    and "\<not> check_tetrominoe_collision (moved_placement t d) (set_cells t 0 g)"
  shows "move_tetrominoe t g d = Some (0, t, g)"
proof -
  obtain x0 y0 x1 y1 x2 y2 x3 y3 where t: "t = ((x0, y0), (x1, y1), (x2, y2), (x3, y3))"
    by (rule tetrominoe_exhaust)
  have "g (x0, y0) = sint col"
    using assms(2) t by simp
  then have "to_short (g (fst (fst t), snd (fst t))) = sint col"
    by (simp add: t to_short_sint)
  then show ?thesis
    using assms by (simp add: move_tetrominoe_def set_cells_restore)
qed

lemma blocked_rejected:
  assumes "c \<in> set (cells t')" and "blocked t g c"
  shows "\<not> check_tetrominoe_collision t' (set_cells t 0 g)"
proof
  assume "check_tetrominoe_collision t' (set_cells t 0 g)"
  then have "case c of (x, y) \<Rightarrow> 0 \<le> x \<and> x < 10 \<and> 0 \<le> y \<and> y < 20
      \<and> ((x, y) \<in> set (cells t) \<or> g (x, y) = 0)"
    using assms(1) unfolding check_cleared_iff by blast
  then show False
    using assms(2) by (cases c) (simp add: blocked_def GRID_SIZE_X_def GRID_SIZE_Y_def)
qed

text \<open>One blocked cell under the piece is enough for the move down to be refused.\<close>

lemma move_down_one_blocked:
  assumes "tetrominoe_in_grid t"
    and "\<forall>c \<in> set (cells t). g c = sint (col :: 16 word)"
    and "(x, y) \<in> set (cells t)"
    and "blocked t g (x, y + 1)"
  shows "move_tetrominoe t g MOVE_DOWN = Some (0, t, g)"
proof -
  obtain x0 y0 x1 y1 x2 y2 x3 y3 where t: "t = ((x0, y0), (x1, y1), (x2, y2), (x3, y3))"
    by (rule tetrominoe_exhaust)
  have "(x, y + 1) \<in> set (cells (moved_placement t MOVE_DOWN))"
    using assms(3) unfolding t by (auto simp: MOVE_DOWN_def)
  then have "\<not> check_tetrominoe_collision (moved_placement t MOVE_DOWN) (set_cells t 0 g)"
    using assms(4) by (rule blocked_rejected)
  with assms(1,2) show ?thesis
    by (rule move_rejected)
qed

text \<open>
  C5. Let the four cells of a piece inside the grid hold the piece's colour (a
  \<^verbatim>\<open>short\<close>), and let each of the four cells one row below the piece be out of bounds
  or occupied by a cell that is not the piece's own. Then the move down returns 0, the
  coordinates are unchanged and the grid is exactly the grid before the call.
\<close>

theorem move_down_blocked:
  assumes "tetrominoe_in_grid t"
    and "\<forall>c \<in> set (cells t). g c = sint (col :: 16 word)"
    and "\<forall>(x, y) \<in> set (cells t). blocked t g (x, y + 1)"
  shows "move_tetrominoe t g MOVE_DOWN = Some (0, t, g)"
proof -
  obtain x0 y0 x1 y1 x2 y2 x3 y3 where t: "t = ((x0, y0), (x1, y1), (x2, y2), (x3, y3))"
    by (rule tetrominoe_exhaust)
  have "(x0, y0) \<in> set (cells t)"
    by (simp add: t)
  moreover from this have "blocked t g (x0, y0 + 1)"
    using assms(3) by blast
  ultimately show ?thesis
    using assms(1,2) move_down_one_blocked by blast
qed

theorem move_down_blocked_witness:
  "tetrominoe_in_grid line_resting
   \<and> blocked line_resting resting_grid (3, 19)
   \<and> move_tetrominoe line_resting resting_grid MOVE_DOWN = Some (0, line_resting, resting_grid)
   \<and> tetrominoe_in_grid line_on_floor
   \<and> blocked line_on_floor floor_grid (3, 20)
   \<and> move_tetrominoe line_on_floor floor_grid MOVE_DOWN = Some (0, line_on_floor, floor_grid)"
proof -
  have a1: "tetrominoe_in_grid line_resting"
    by (simp add: line_resting_def GRID_SIZE_X_def GRID_SIZE_Y_def)
  have a2: "\<forall>c \<in> set (cells line_resting). resting_grid c = sint (0x0700 :: 16 word)"
    by (simp add: line_resting_def resting_grid_def)
  have a3: "\<forall>(x, y) \<in> set (cells line_resting). blocked line_resting resting_grid (x, y + 1)"
    by (simp add: line_resting_def resting_grid_def blocked_def)
  have b1: "tetrominoe_in_grid line_on_floor"
    by (simp add: line_on_floor_def GRID_SIZE_X_def GRID_SIZE_Y_def)
  have b2: "\<forall>c \<in> set (cells line_on_floor). floor_grid c = sint (0x0700 :: 16 word)"
    by (simp add: line_on_floor_def floor_grid_def)
  have b3: "\<forall>(x, y) \<in> set (cells line_on_floor). blocked line_on_floor floor_grid (x, y + 1)"
    by (simp add: line_on_floor_def floor_grid_def blocked_def GRID_SIZE_X_def GRID_SIZE_Y_def)
  have a4: "blocked line_resting resting_grid (3, 19)"
    using a3 by (simp add: line_resting_def)
  have b4: "blocked line_on_floor floor_grid (3, 20)"
    using b3 by (simp add: line_on_floor_def)
  from a1 a4 b1 b4 move_down_blocked [OF a1 a2 a3] move_down_blocked [OF b1 b2 b3]
  show ?thesis
    by blast
qed

section \<open>Properties of the rotation\<close>

lemma lowest4_min: "lowest4 a b c d = min (min (min a b) c) d"
  by (simp add: lowest4_def Let_def min_def)

lemma lowest4_shift: "lowest4 (k + a) (k + b) (k + c) (k + d) = k + lowest4 a b c d"
  by (simp add: lowest4_min min_def)

lemma lowest4_neg: "lowest4 (k - a) (k - b) (k - c) (k - d) = k - highest4 a b c d"
  by (simp add: lowest4_min highest4_def min_def max_def)

text \<open>
  The candidate placement is an affine image of the piece. Starting from the piece
  itself, four rotations pass through the four shapes below; each lemma gives the
  constants of the next shape.
\<close>

lemma rotate_plus_plus:
  "rotated_placement ((k + x0, l + y0), (k + x1, l + y1), (k + x2, l + y2), (k + x3, l + y3)) m =
    (let k' = k + lowest4 x0 x1 x2 x3 - lowest4 y0 y1 y2 y3;
         l' = l + lowest4 y0 y1 y2 y3 + lowest4 x0 x1 x2 x3 + m - 1
     in ((k' + y0, l' - x0), (k' + y1, l' - x1), (k' + y2, l' - x2), (k' + y3, l' - x3)))"
  by (simp add: rotate_cell_def lowest4_shift Let_def)

lemma rotate_plus_minus:
  "rotated_placement ((k + y0, l - x0), (k + y1, l - x1), (k + y2, l - x2), (k + y3, l - x3)) m =
    (let k' = k + lowest4 y0 y1 y2 y3 + highest4 x0 x1 x2 x3;
         l' = l - highest4 x0 x1 x2 x3 + lowest4 y0 y1 y2 y3 + m - 1
     in ((k' - x0, l' - y0), (k' - x1, l' - y1), (k' - x2, l' - y2), (k' - x3, l' - y3)))"
  by (simp add: rotate_cell_def lowest4_shift lowest4_neg Let_def)

lemma rotate_minus_minus:
  "rotated_placement ((k - x0, l - y0), (k - x1, l - y1), (k - x2, l - y2), (k - x3, l - y3)) m =
    (let k' = k - highest4 x0 x1 x2 x3 + highest4 y0 y1 y2 y3;
         l' = l - highest4 y0 y1 y2 y3 - highest4 x0 x1 x2 x3 + m - 1
     in ((k' - y0, l' + x0), (k' - y1, l' + x1), (k' - y2, l' + x2), (k' - y3, l' + x3)))"
  by (simp add: rotate_cell_def lowest4_neg Let_def)

lemma rotate_minus_plus:
  "rotated_placement ((k - y0, l + x0), (k - y1, l + x1), (k - y2, l + x2), (k - y3, l + x3)) m =
    (let k' = k - highest4 y0 y1 y2 y3 - lowest4 x0 x1 x2 x3;
         l' = l + lowest4 x0 x1 x2 x3 - highest4 y0 y1 y2 y3 + m - 1
     in ((k' + x0, l' + y0), (k' + x1, l' + y1), (k' + x2, l' + y2), (k' + x3, l' + y3)))"
  by (simp add: rotate_cell_def lowest4_shift lowest4_neg Let_def)

lemma four_rotations:
  "rotated_placement (rotated_placement (rotated_placement (rotated_placement t m) m) m) m
    = shift_down (2 * (2 * m - 2 - extent_x t - extent_y t)) t"
proof -
  obtain x0 y0 x1 y1 x2 y2 x3 y3 where t: "t = ((x0, y0), (x1, y1), (x2, y2), (x3, y3))"
    by (rule tetrominoe_exhaust)
  define lx where "lx = lowest4 x0 x1 x2 x3"
  define ly where "ly = lowest4 y0 y1 y2 y3"
  define hx where "hx = highest4 x0 x1 x2 x3"
  define hy where "hy = highest4 y0 y1 y2 y3"
  define k1 where "k1 = 0 + lx - ly"
  define l1 where "l1 = 0 + ly + lx + m - 1"
  define k2 where "k2 = k1 + ly + hx"
  define l2 where "l2 = l1 - hx + ly + m - 1"
  define k3 where "k3 = k2 - hx + hy"
  define l3 where "l3 = l2 - hy - hx + m - 1"
  define k4 where "k4 = k3 - hy - lx"
  define l4 where "l4 = l3 + lx - hy + m - 1"
  have "t = ((0 + x0, 0 + y0), (0 + x1, 0 + y1), (0 + x2, 0 + y2), (0 + x3, 0 + y3))"
    by (simp add: t)
  then have r1: "rotated_placement t m =
      ((k1 + y0, l1 - x0), (k1 + y1, l1 - x1), (k1 + y2, l1 - x2), (k1 + y3, l1 - x3))"
    using rotate_plus_plus [of 0 x0 0 y0 x1 y1 x2 y2 x3 y3 m]
    by (simp only: Let_def k1_def l1_def lx_def ly_def)
  have r2: "rotated_placement
      ((k1 + y0, l1 - x0), (k1 + y1, l1 - x1), (k1 + y2, l1 - x2), (k1 + y3, l1 - x3)) m =
      ((k2 - x0, l2 - y0), (k2 - x1, l2 - y1), (k2 - x2, l2 - y2), (k2 - x3, l2 - y3))"
    using rotate_plus_minus [of k1 y0 l1 x0 y1 x1 y2 x2 y3 x3 m]
    by (simp only: Let_def k2_def l2_def hx_def ly_def)
  have r3: "rotated_placement
      ((k2 - x0, l2 - y0), (k2 - x1, l2 - y1), (k2 - x2, l2 - y2), (k2 - x3, l2 - y3)) m =
      ((k3 - y0, l3 + x0), (k3 - y1, l3 + x1), (k3 - y2, l3 + x2), (k3 - y3, l3 + x3))"
    using rotate_minus_minus [of k2 x0 l2 y0 x1 y1 x2 y2 x3 y3 m]
    by (simp only: Let_def k3_def l3_def hx_def hy_def)
  have r4: "rotated_placement
      ((k3 - y0, l3 + x0), (k3 - y1, l3 + x1), (k3 - y2, l3 + x2), (k3 - y3, l3 + x3)) m =
      ((k4 + x0, l4 + y0), (k4 + x1, l4 + y1), (k4 + x2, l4 + y2), (k4 + x3, l4 + y3))"
    using rotate_minus_plus [of k3 y0 l3 x0 y1 x1 y2 x2 y3 x3 m]
    by (simp only: Let_def k4_def l4_def lx_def hy_def)
  have k4: "k4 = 0"
    by (simp add: k4_def k3_def k2_def k1_def)
  have l4: "l4 = 2 * (2 * m - 2 - (hx - lx) - (hy - ly))"
    by (simp add: l4_def l3_def l2_def l1_def)
  have "shift_down (2 * (2 * m - 2 - extent_x t - extent_y t)) t =
      ((k4 + x0, l4 + y0), (k4 + x1, l4 + y1), (k4 + x2, l4 + y2), (k4 + x3, l4 + y3))"
    by (simp add: t k4 l4 hx_def hy_def lx_def ly_def)
  then show ?thesis
    by (simp only: r1 r2 r3 r4)
qed

lemma rotate_accepted_piece:
  assumes "rotate_tetrominoe t g ty = Some (t1, g1)"
    and "rotation_accepted t g ty"
    and "max_extent ty = Some m"
  shows "t1 = rotated_placement t m"
  using assms
  by (cases "tetrominoe_in_grid t")
    (simp_all add: rotate_tetrominoe_def rotation_accepted_def Let_def)

lemma rotate_times_accepted:
  assumes "rotate_times n t g ty = Some (t', g', True)" and "max_extent ty = Some m"
  shows "t' = ((\<lambda>p. rotated_placement p m) ^^ n) t"
  using assms
proof (induction n arbitrary: t g)
  case 0
  then show ?case
    by simp
next
  case (Suc n)
  from Suc.prems(1) obtain t1 g1 where
    r: "rotate_tetrominoe t g ty = Some (t1, g1)"
    and rest: "rotate_times n t1 g1 ty = Some (t', g', True)"
    and acc: "rotation_accepted t g ty"
    by (auto split: option.splits)
  have "t1 = rotated_placement t m"
    using r acc Suc.prems(2) by (rule rotate_accepted_piece)
  moreover have "t' = ((\<lambda>p. rotated_placement p m) ^^ n) t1"
    using rest Suc.prems(2) by (rule Suc.IH)
  ultimately show ?case
    by (simp only: funpow_Suc_right o_apply)
qed

lemma shift_down_cells: "set (cells (shift_down k t)) = (\<lambda>(x, y). (x, y + k)) ` set (cells t)"
proof -
  obtain x0 y0 x1 y1 x2 y2 x3 y3 where t: "t = ((x0, y0), (x1, y1), (x2, y2), (x3, y3))"
    by (rule tetrominoe_exhaust)
  show ?thesis
    unfolding t by simp
qed

lemma cells_nonempty: "set (cells t) \<noteq> {}"
  by (cases t rule: prod_cases4) simp

text \<open>A piece moved down by \<open>k\<close> rows covers the same cells only for \<open>k = 0\<close>.\<close>

lemma shift_down_same_cells:
  "set (cells (shift_down k t)) = set (cells t) \<longleftrightarrow> k = 0"
proof
  assume eq: "set (cells (shift_down k t)) = set (cells t)"
  let ?Y = "snd ` set (cells t)"
  have fin: "finite ?Y" and ne: "?Y \<noteq> {}"
    using cells_nonempty [of t] by simp_all
  have "snd ` set (cells (shift_down k t)) = (\<lambda>y. y + k) ` ?Y"
    unfolding shift_down_cells by (force simp: image_iff)
  then have "?Y = (\<lambda>y. y + k) ` ?Y"
    using eq by simp
  then have "Max ?Y = Max ((\<lambda>y. y + k) ` ?Y)"
    by simp
  also have "\<dots> = Max ?Y + k"
    using fin ne by (simp add: mono_Max_commute [symmetric] mono_def)
  finally show "k = 0"
    by simp
next
  assume "k = 0"
  then show "set (cells (shift_down k t)) = set (cells t)"
    by (simp add: shift_down_cells)
qed

text \<open>
  The drift for the seven shapes as \<^verbatim>\<open>setup_tetrominoe\<close> creates them: 6 rows for the
  straight piece, none for the square, 2 rows for the other five.
\<close>

lemma spawn_drift:
  assumes "0 \<le> piece" and "piece < PIECE_TYPES" and "max_extent piece = Some m"
  shows "2 * (2 * m - 2 - extent_x (setup_tetrominoe t piece k)
              - extent_y (setup_tetrominoe t piece k))
    = (if piece = PIECE_LINE then 6 else if piece = PIECE_SQUARE then 0 else 2)"
proof -
  have "piece = 0 \<or> piece = 1 \<or> piece = 2 \<or> piece = 3 \<or> piece = 4 \<or> piece = 5 \<or> piece = 6"
    using assms(1,2) by (simp add: PIECE_TYPES_def) arith
  then show ?thesis
    using assms(3)
    by (auto simp: setup_tetrominoe_def max_extent_def PIECE_LINE_def PIECE_L_def
        PIECE_REVERSE_L_def PIECE_SQUARE_def PIECE_5_def PIECE_S_def PIECE_T_def
        lowest4_def highest4_def)
qed

text \<open>Rotating a piece that is alone on the grid.\<close>

lemma clear_painted: "set_cells t 0 (set_cells t v empty_grid) = empty_grid"
  by (rule ext) (simp add: set_cells_apply empty_grid_def)

lemma painted_cell0: "set_cells t v g (fst t) = v"
proof -
  obtain x0 y0 x1 y1 x2 y2 x3 y3 where t: "t = ((x0, y0), (x1, y1), (x2, y2), (x3, y3))"
    by (rule tetrominoe_exhaust)
  show ?thesis
    by (simp add: set_cells_apply t del: set_cells.simps)
qed

lemma rotate_on_painted:
  assumes "tetrominoe_in_grid t" and "max_extent ty = Some m"
    and "check_tetrominoe_collision (rotated_placement t m) empty_grid"
  shows "rotate_tetrominoe t (set_cells t (sint (col :: 16 word)) empty_grid) ty
      = Some (rotated_placement t m, set_cells (rotated_placement t m) (sint col) empty_grid)"
    and "rotation_accepted t (set_cells t (sint col) empty_grid) ty"
  using assms
  by (simp_all add: rotate_tetrominoe_def rotation_accepted_def Let_def clear_painted
      painted_cell0 to_short_sint)

lemma rotate_times_painted:
  assumes "tetrominoe_in_grid t" and "max_extent ty = Some m"
    and "rotated_placement t m = t1"
    and "check_tetrominoe_collision t1 empty_grid"
    and "rotate_times n t1 (set_cells t1 (sint (col :: 16 word)) empty_grid) ty
         = Some (t', g', True)"
  shows "rotate_times (Suc n) t (set_cells t (sint col) empty_grid) ty = Some (t', g', True)"
proof -
  have "check_tetrominoe_collision (rotated_placement t m) empty_grid"
    using assms(3,4) by simp
  from rotate_on_painted [OF assms(1,2) this, of col] assms(3,5) show ?thesis
    by simp
qed

lemma l_piece_rotations:
  "rotated_placement l_spawn 3 = ((4, 2), (5, 0), (4, 1), (4, 0))"
  "rotated_placement ((4, 2), (5, 0), (4, 1), (4, 0)) 3 = ((6, 2), (4, 1), (5, 2), (4, 2))"
  "rotated_placement ((6, 2), (4, 1), (5, 2), (4, 2)) 3 = ((5, 1), (4, 3), (5, 2), (5, 3))"
  "rotated_placement ((5, 1), (4, 3), (5, 2), (5, 3)) 3 = l_lower"
  by (simp_all add: l_spawn_def l_lower_def rotate_cell_def lowest4_def)

lemma max_extent_L: "max_extent PIECE_L = Some 3"
  by (simp add: max_extent_def PIECE_L_def PIECE_LINE_def)

text \<open>
  The L piece alone on the grid at its spawn position: four rotations, all accepted,
  leave it two rows lower.
\<close>

lemma l_piece_four_rotations:
  "rotate_times 4 l_spawn l_grid PIECE_L = Some (l_lower, l_lower_grid, True)"
proof -
  have b: "tetrominoe_in_grid l_spawn" "tetrominoe_in_grid ((4, 2), (5, 0), (4, 1), (4, 0))"
    "tetrominoe_in_grid ((6, 2), (4, 1), (5, 2), (4, 2))"
    "tetrominoe_in_grid ((5, 1), (4, 3), (5, 2), (5, 3))"
    by (simp_all add: l_spawn_def GRID_SIZE_X_def GRID_SIZE_Y_def)
  have c: "check_tetrominoe_collision ((4, 2), (5, 0), (4, 1), (4, 0)) empty_grid"
    "check_tetrominoe_collision ((6, 2), (4, 1), (5, 2), (4, 2)) empty_grid"
    "check_tetrominoe_collision ((5, 1), (4, 3), (5, 2), (5, 3)) empty_grid"
    "check_tetrominoe_collision l_lower empty_grid"
    by (simp_all add: l_lower_def empty_grid_def GRID_SIZE_X_def GRID_SIZE_Y_def)
  note r0 = rotate_times.simps(1)
    [of l_lower "set_cells l_lower (sint (0x0400 :: 16 word)) empty_grid" PIECE_L]
  note r1 = rotate_times_painted [OF b(4) max_extent_L l_piece_rotations(4) c(4) r0]
  note r2 = rotate_times_painted [OF b(3) max_extent_L l_piece_rotations(3) c(3) r1]
  note r3 = rotate_times_painted [OF b(2) max_extent_L l_piece_rotations(2) c(2) r2]
  note r4 = rotate_times_painted [OF b(1) max_extent_L l_piece_rotations(1) c(1) r3]
  have "sint (0x0400 :: 16 word) = 0x0400"
    by simp
  with r4 show ?thesis
    by (simp only: numeral_eq_Suc pred_numeral_simps Num.BitM.simps l_grid_def l_lower_grid_def)
qed

lemma square_rotations:
  "rotated_placement square_spawn 2 = ((5, 1), (5, 0), (6, 1), (6, 0))"
  "rotated_placement ((5, 1), (5, 0), (6, 1), (6, 0)) 2 = ((6, 1), (5, 1), (6, 0), (5, 0))"
  "rotated_placement ((6, 1), (5, 1), (6, 0), (5, 0)) 2 = ((6, 0), (6, 1), (5, 0), (5, 1))"
  "rotated_placement ((6, 0), (6, 1), (5, 0), (5, 1)) 2 = square_spawn"
  by (simp_all add: square_spawn_def rotate_cell_def lowest4_def)

lemma max_extent_square: "max_extent PIECE_SQUARE = Some 2"
  by (simp add: max_extent_def PIECE_SQUARE_def PIECE_LINE_def PIECE_L_def PIECE_REVERSE_L_def)

text \<open>The square alone on the grid: four accepted rotations bring it back.\<close>

lemma square_four_rotations:
  "rotate_times 4 square_spawn square_grid PIECE_SQUARE = Some (square_spawn, square_grid, True)"
proof -
  have b: "tetrominoe_in_grid square_spawn"
    "tetrominoe_in_grid ((5, 1), (5, 0), (6, 1), (6, 0))"
    "tetrominoe_in_grid ((6, 1), (5, 1), (6, 0), (5, 0))"
    "tetrominoe_in_grid ((6, 0), (6, 1), (5, 0), (5, 1))"
    by (simp_all add: square_spawn_def GRID_SIZE_X_def GRID_SIZE_Y_def)
  have c: "check_tetrominoe_collision ((5, 1), (5, 0), (6, 1), (6, 0)) empty_grid"
    "check_tetrominoe_collision ((6, 1), (5, 1), (6, 0), (5, 0)) empty_grid"
    "check_tetrominoe_collision ((6, 0), (6, 1), (5, 0), (5, 1)) empty_grid"
    "check_tetrominoe_collision square_spawn empty_grid"
    by (simp_all add: square_spawn_def empty_grid_def GRID_SIZE_X_def GRID_SIZE_Y_def)
  note r0 = rotate_times.simps(1)
    [of square_spawn "set_cells square_spawn (sint (0x0100 :: 16 word)) empty_grid" PIECE_SQUARE]
  note r1 = rotate_times_painted [OF b(4) max_extent_square square_rotations(4) c(4) r0]
  note r2 = rotate_times_painted [OF b(3) max_extent_square square_rotations(3) c(3) r1]
  note r3 = rotate_times_painted [OF b(2) max_extent_square square_rotations(2) c(2) r2]
  note r4 = rotate_times_painted [OF b(1) max_extent_square square_rotations(1) c(1) r3]
  have "sint (0x0100 :: 16 word) = 0x0100"
    by simp
  with r4 show ?thesis
    by (simp only: numeral_eq_Suc pred_numeral_simps Num.BitM.simps square_grid_def)
qed

lemma l_piece_created:
  "create_tetrominoe t empty_grid block_colours_init PIECE_L = Some (1, l_spawn, l_grid)"
  by (simp add: create_tetrominoe_def setup_tetrominoe_def PIECE_L_def PIECE_LINE_def
      block_colours_init_def l_spawn_def l_grid_def empty_grid_def
      GRID_SIZE_X_def GRID_SIZE_Y_def)

text \<open>
  C2, as the code has it. Four calls of \<^verbatim>\<open>rotate_tetrominoe\<close> in a row, each of them
  accepted, leave the piece with its original shape and columns but moved down by
  2 * (2 * max_ext - 2 - w - h) rows, where w and h are the width and height of the
  piece's bounding box less one. The piece covers its original four cells again exactly
  when w + h = 2 * max_ext - 2.
\<close>

theorem four_rotations_drift:
  assumes "rotate_times 4 t g ty = Some (t', g', True)" and "max_extent ty = Some m"
  shows "t' = shift_down (2 * (2 * m - 2 - extent_x t - extent_y t)) t
         \<and> (set (cells t') = set (cells t) \<longleftrightarrow> extent_x t + extent_y t = 2 * m - 2)"
proof -
  have "t' = ((\<lambda>p. rotated_placement p m) ^^ 4) t"
    using assms by (rule rotate_times_accepted)
  then have d: "t' = shift_down (2 * (2 * m - 2 - extent_x t - extent_y t)) t"
    by (simp add: numeral_eq_Suc four_rotations)
  have "set (cells t') = set (cells t) \<longleftrightarrow> 2 * (2 * m - 2 - extent_x t - extent_y t) = 0"
    unfolding d by (rule shift_down_same_cells)
  with d show ?thesis
    by auto
qed

theorem four_rotations_drift_witness:
  "rotate_times 4 l_spawn l_grid PIECE_L = Some (l_lower, l_lower_grid, True)
   \<and> max_extent PIECE_L = Some 3
   \<and> l_lower = shift_down 2 l_spawn
   \<and> extent_x l_spawn + extent_y l_spawn \<noteq> 2 * 3 - 2
   \<and> rotate_times 4 square_spawn square_grid PIECE_SQUARE
       = Some (square_spawn, square_grid, True)
   \<and> max_extent PIECE_SQUARE = Some 2
   \<and> square_spawn = shift_down 0 square_spawn
   \<and> extent_x square_spawn + extent_y square_spawn = 2 * 2 - 2"
proof -
  note drift = four_rotations_drift [OF l_piece_four_rotations max_extent_L]
  have e: "extent_x l_spawn = 2" "extent_y l_spawn = 1"
    by (simp_all add: l_spawn_def lowest4_def highest4_def)
  have l: "l_lower = shift_down 2 l_spawn"
    using drift [THEN conjunct1] by (simp add: e)
  note same = four_rotations_drift [OF square_four_rotations max_extent_square]
  have q: "extent_x square_spawn + extent_y square_spawn = 2 * 2 - 2"
    using same [THEN conjunct2] by simp
  have "extent_x square_spawn = 1" and "extent_y square_spawn = 1"
    by (simp_all add: square_spawn_def lowest4_def highest4_def)
  then have z: "square_spawn = shift_down 0 square_spawn"
    using same [THEN conjunct1] by simp
  from l_piece_four_rotations max_extent_L e l square_four_rotations max_extent_square q z
  show ?thesis
    by simp
qed

text \<open>
  The claim as the specification states it fails on the first piece a game can start
  with: the L piece, created on the empty grid and rotated four times with every
  rotation accepted, does not cover its original cells.
\<close>

theorem four_rotations_counterexample:
  "create_tetrominoe l_lower empty_grid block_colours_init PIECE_L = Some (1, l_spawn, l_grid)
   \<and> rotate_times 4 l_spawn l_grid PIECE_L = Some (l_lower, l_lower_grid, True)
   \<and> set (cells l_lower) \<noteq> set (cells l_spawn)"
proof -
  have "(4, 2) \<in> set (cells l_lower)" and "(4, 2) \<notin> set (cells l_spawn)"
    by (simp_all add: l_lower_def l_spawn_def)
  then have "set (cells l_lower) \<noteq> set (cells l_spawn)"
    by blast
  with l_piece_created l_piece_four_rotations show ?thesis
    by simp
qed

section \<open>Properties of the scan for complete lines\<close>

lemma fold_bind_None: "fold (\<lambda>y st. Option.bind st (f y)) ys None = None"
  by (induction ys) simp_all

text \<open>
  The outer loop on any list of rows, started with \<open>n\<close> slots already used: the complete
  rows are stored in order from slot \<open>n\<close> on while they fit, and the scan has no
  defined result once they do not.
\<close>

lemma scan_fold:
  assumes "n \<le> length rl"
  shows "fold (\<lambda>y st. Option.bind st (scan_line g y)) ys (Some (rl, n)) =
    (if n + length (filter (line_complete g) ys) \<le> length rl
     then Some (take n rl @ filter (line_complete g) ys
                 @ drop (n + length (filter (line_complete g) ys)) rl,
                n + length (filter (line_complete g) ys))
     else None)"
  using assms
proof (induction ys arbitrary: rl n)
  case Nil
  then show ?case
    by simp
next
  case (Cons y ys)
  show ?case
  proof (cases "line_complete g y")
    case False
    then show ?thesis
      using Cons by (simp add: scan_line_def)
  next
    case True
    show ?thesis
    proof (cases "n < length rl")
      case False
      with True Cons.prems show ?thesis
        by (simp add: scan_line_def fold_bind_None)
    next
      case lt: True
      have "take (Suc n) (rl[n := y]) = take n rl @ [y]"
        using lt by (simp add: take_Suc_conv_app_nth)
      moreover have "\<And>k. drop (Suc (n + k)) (rl[n := y]) = drop (Suc (n + k)) rl"
        by simp
      ultimately show ?thesis
        using True lt Cons.IH [of "Suc n" "rl[n := y]"]
        by (simp add: scan_line_def)
    qed
  qed
qed

lemma line_complete_iff:
  "line_complete g y \<longleftrightarrow> (\<forall>x. 0 \<le> x \<and> x < 10 \<longrightarrow> g (x, y) \<noteq> 0)"
  by (auto simp: line_complete_def GRID_SIZE_X_def list_all_iff)

lemma complete_lines_iff:
  "y \<in> set (complete_lines g) \<longleftrightarrow>
    0 \<le> y \<and> y < 20 \<and> (\<forall>x. 0 \<le> x \<and> x < 10 \<longrightarrow> g (x, y) \<noteq> 0)"
  by (auto simp: complete_lines_def GRID_SIZE_Y_def line_complete_iff)

lemma get_remove_lines_result:
  "get_remove_lines g rl =
    (if length (complete_lines g) \<le> length rl
     then Some (complete_lines g @ drop (length (complete_lines g)) rl,
                length (complete_lines g))
     else None)"
  using scan_fold [of 0 rl g "[0..GRID_SIZE_Y - 1]"]
  by (simp add: get_remove_lines_def complete_lines_def)

text \<open>
  C6, as the code has it. For every grid with at most 4 complete rows and every 4-slot
  array: the scan returns the number of complete rows, the first that many slots hold
  the complete rows in increasing order, and the other slots are untouched; a row is in
  that list exactly when it is one of rows 0..19 and its 10 cells are all occupied.
  Started on the all-sentinel array, the non-sentinel slots are exactly the complete
  rows.
\<close>

theorem get_remove_lines_complete_rows:
  assumes "length rl = 4" and "length (complete_lines g) \<le> 4"
  shows "get_remove_lines g rl =
           Some (complete_lines g @ drop (length (complete_lines g)) rl,
                 length (complete_lines g))
         \<and> (\<forall>y. y \<in> set (complete_lines g) \<longleftrightarrow>
               0 \<le> y \<and> y < 20 \<and> (\<forall>x. 0 \<le> x \<and> x < 10 \<longrightarrow> g (x, y) \<noteq> 0))
         \<and> (rl = [- 1, - 1, - 1, - 1] \<longrightarrow>
               {y \<in> set (complete_lines g @ drop (length (complete_lines g)) rl). y \<noteq> - 1}
                 = set (complete_lines g))"
proof -
  have a: "get_remove_lines g rl =
      Some (complete_lines g @ drop (length (complete_lines g)) rl, length (complete_lines g))"
    using assms by (simp add: get_remove_lines_result)
  have b: "\<forall>y. y \<in> set (complete_lines g) \<longleftrightarrow>
      0 \<le> y \<and> y < 20 \<and> (\<forall>x. 0 \<le> x \<and> x < 10 \<longrightarrow> g (x, y) \<noteq> 0)"
    by (simp only: complete_lines_iff) simp
  have c: "rl = [- 1, - 1, - 1, - 1] \<longrightarrow>
      {y \<in> set (complete_lines g @ drop (length (complete_lines g)) rl). y \<noteq> - 1}
        = set (complete_lines g)"
  proof
    assume rl: "rl = [- 1, - 1, - 1, - 1]"
    have "set (drop (length (complete_lines g)) rl) \<subseteq> {- 1}"
      using set_drop_subset [of "length (complete_lines g)" rl] by (simp add: rl)
    moreover have "- 1 \<notin> set (complete_lines g)"
      by (simp add: complete_lines_iff)
    ultimately show "{y \<in> set (complete_lines g @ drop (length (complete_lines g)) rl). y \<noteq> - 1}
        = set (complete_lines g)"
      by auto
  qed
  from a b c show ?thesis
    by blast
qed

lemma two_lines_complete: "complete_lines two_lines_grid = [18, 19]"
  by code_simp

theorem get_remove_lines_complete_rows_witness:
  "length [- 1, - 1, - 1, - 1 :: int] = 4
   \<and> length (complete_lines two_lines_grid) \<le> 4
   \<and> get_remove_lines two_lines_grid [- 1, - 1, - 1, - 1] = Some ([18, 19, - 1, - 1], 2)"
proof -
  have l: "length [- 1, - 1, - 1, - 1 :: int] = 4"
    by simp
  have c: "length (complete_lines two_lines_grid) \<le> 4"
    by (simp add: two_lines_complete)
  from get_remove_lines_complete_rows [OF l c, THEN conjunct1] l c show ?thesis
    by (simp add: two_lines_complete)
qed

text \<open>
  With more than 4 complete rows the claim as stated fails: on the grid whose 20 rows
  are all complete the fifth store leaves the array, and no removal set is returned.
\<close>

lemma full_grid_complete: "length (complete_lines full_grid) = 20"
  by code_simp

theorem get_remove_lines_counterexample:
  "line_complete full_grid 4
   \<and> length (complete_lines full_grid) = 20
   \<and> get_remove_lines full_grid [- 1, - 1, - 1, - 1] = None"
proof -
  have "line_complete full_grid 4"
    by (simp add: line_complete_iff full_grid_def)
  moreover have "get_remove_lines full_grid [- 1, - 1, - 1, - 1] = None"
    by (simp add: get_remove_lines_result full_grid_complete)
  ultimately show ?thesis
    using full_grid_complete by simp
qed

section \<open>Properties of the removal of lines\<close>

lemma clear_fold:
  "fold (\<lambda>x g. grid_set g x r 0) xs g (x, y) = (if x \<in> set xs \<and> y = r then 0 else g (x, y))"
  by (induction xs arbitrary: g) (auto simp: grid_set_def)

lemma clear_line_apply:
  "clear_line g r (x, y) = (if 0 \<le> x \<and> x < 10 \<and> y = r then 0 else g (x, y))"
  unfolding clear_line_def clear_fold by (auto simp: GRID_SIZE_X_def)

lemma copy_fold:
  "fold (\<lambda>x g. grid_set g x y (g (x, y - 1))) xs g (x', y') =
    (if x' \<in> set xs \<and> y' = y then g (x', y - 1) else g (x', y'))"
  by (induction xs arbitrary: g) (auto simp: grid_set_def)

lemma copy_line_down_apply:
  "copy_line_down g y (x', y') =
    (if 0 \<le> x' \<and> x' < 10 \<and> y' = y then g (x', y - 1) else g (x', y'))"
  unfolding copy_line_down_def copy_fold by (auto simp: GRID_SIZE_X_def)

lemma move_lines_down_step:
  assumes "1 \<le> r"
  shows "move_lines_down g r = move_lines_down (copy_line_down g r) (r - 1)"
proof -
  have "[1..r] = [1..r - 1] @ [r]"
    using assms by (simp add: upto_rec2)
  then show ?thesis
    by (simp add: move_lines_down_def)
qed

text \<open>
  The shift loop copies rows top-down, so each of the rows 1..r receives the contents
  that the row above it had before the loop; row 0 is never written.
\<close>

lemma move_lines_down_apply:
  assumes "0 \<le> r"
  shows "move_lines_down g r (x, y) =
    (if 0 \<le> x \<and> x < 10 \<and> 1 \<le> y \<and> y \<le> r then g (x, y - 1) else g (x, y))"
  using assms
proof (induction "nat r" arbitrary: r g)
  case 0
  then have "r = 0"
    by simp
  then show ?case
    by (simp add: move_lines_down_def)
next
  case (Suc n)
  then have r: "1 \<le> r" and n: "n = nat (r - 1)" and r': "0 \<le> r - 1"
    by simp_all
  have "move_lines_down g r (x, y) = move_lines_down (copy_line_down g r) (r - 1) (x, y)"
    using r by (simp only: move_lines_down_step)
  also have "\<dots> = (if 0 \<le> x \<and> x < 10 \<and> 1 \<le> y \<and> y \<le> r - 1
      then copy_line_down g r (x, y - 1) else copy_line_down g r (x, y))"
    using Suc.hyps(1) [OF n r'] by simp
  also have "\<dots> = (if 0 \<le> x \<and> x < 10 \<and> 1 \<le> y \<and> y \<le> r then g (x, y - 1) else g (x, y))"
    using r by (auto simp: copy_line_down_apply)
  finally show ?case .
qed

text \<open>
  What one processed slot does to the grid: rows below \<open>r\<close> are untouched, rows 1..r
  take the former contents of rows 0..r-1 (so the former row \<open>r\<close> is gone), and row 0
  is emptied only when \<open>r = 0\<close>; for \<open>r > 0\<close> it keeps its contents.
\<close>

lemma remove_line_apply:
  assumes "0 \<le> r"
  shows "move_lines_down (clear_line g r) r (x, y) =
    (if 0 \<le> x \<and> x < 10 \<and> 1 \<le> y \<and> y \<le> r then g (x, y - 1)
     else if 0 \<le> x \<and> x < 10 \<and> y = 0 \<and> r = 0 then 0
     else g (x, y))"
  using assms by (auto simp: move_lines_down_apply clear_line_apply)

lemma do_remove_lines_single:
  assumes "0 \<le> r" and "r < 20"
  shows "do_remove_lines g [r, - 1, - 1, - 1] =
    Some (move_lines_down (clear_line g r) r, [- 1, - 1, - 1, - 1], 1)"
  using assms by (simp add: do_remove_lines_def remove_slot_def GRID_SIZE_Y_def upt_rec)

lemma do_remove_lines_double:
  assumes "0 \<le> r1" and "r1 < 20" and "0 \<le> r2" and "r2 < 20"
  shows "do_remove_lines g [r1, r2, - 1, - 1] =
    Some (move_lines_down (clear_line (move_lines_down (clear_line g r1) r1) r2) r2,
          [- 1, - 1, - 1, - 1], 2)"
  using assms by (simp add: do_remove_lines_def remove_slot_def GRID_SIZE_Y_def upt_rec)

text \<open>
  Every slot that holds a row of the grid is processed, reset to the sentinel and
  counted; sentinel slots are skipped.
\<close>

lemma remove_slot_valid:
  assumes "i < length rl" and "rl ! i = - 1 \<or> (0 \<le> rl ! i \<and> rl ! i < 20)"
  shows "\<exists>g'. remove_slot i (g, rl, n) =
    Some (g', rl[i := - 1], n + (if rl ! i = - 1 then 0 else 1))"
proof (cases "rl ! i = - 1")
  case True
  then have "rl[i := - 1] = rl"
    by (metis list_update_id)
  with True assms(1) show ?thesis
    by (simp add: remove_slot_def)
next
  case False
  with assms show ?thesis
    by (simp add: remove_slot_def GRID_SIZE_Y_def)
qed

lemma do_remove_lines_slots:
  assumes "\<forall>r \<in> set [a, b, c, d]. r = - 1 \<or> (0 \<le> r \<and> r < 20)"
  shows "\<exists>g'. do_remove_lines g [a, b, c, d] =
    Some (g', [- 1, - 1, - 1, - 1], length (filter (\<lambda>r. r \<noteq> - 1) [a, b, c, d]))"
proof -
  define ka :: nat where "ka = (if a = - 1 then 0 else 1)"
  define kb :: nat where "kb = (if b = - 1 then 0 else 1)"
  define kc :: nat where "kc = (if c = - 1 then 0 else 1)"
  define kd :: nat where "kd = (if d = - 1 then 0 else 1)"
  obtain g1 where s1: "remove_slot 0 (g, [a, b, c, d], 0) = Some (g1, [- 1, b, c, d], ka)"
    using remove_slot_valid [of 0 "[a, b, c, d]" g 0] assms by (auto simp: ka_def)
  obtain g2 where s2: "remove_slot (Suc 0) (g1, [- 1, b, c, d], ka)
      = Some (g2, [- 1, - 1, c, d], ka + kb)"
    using remove_slot_valid [of "Suc 0" "[- 1, b, c, d]" g1 ka] assms by (auto simp: kb_def)
  obtain g3 where s3: "remove_slot (Suc (Suc 0)) (g2, [- 1, - 1, c, d], ka + kb)
      = Some (g3, [- 1, - 1, - 1, d], ka + kb + kc)"
    using remove_slot_valid [of "Suc (Suc 0)" "[- 1, - 1, c, d]" g2 "ka + kb"] assms
    by (auto simp: kc_def)
  obtain g4 where s4: "remove_slot (Suc (Suc (Suc 0))) (g3, [- 1, - 1, - 1, d], ka + kb + kc)
      = Some (g4, [- 1, - 1, - 1, - 1], ka + kb + kc + kd)"
    using remove_slot_valid [of "Suc (Suc (Suc 0))" "[- 1, - 1, - 1, d]" g3 "ka + kb + kc"] assms
    by (auto simp: kd_def)
  have "do_remove_lines g [a, b, c, d] = Some (g4, [- 1, - 1, - 1, - 1], ka + kb + kc + kd)"
    by (simp add: do_remove_lines_def upt_rec s1 s2 s3 s4)
  moreover have "length (filter (\<lambda>r. r \<noteq> - 1) [a, b, c, d]) = ka + kb + kc + kd"
    by (simp add: ka_def kb_def kc_def kd_def)
  ultimately show ?thesis
    by simp
qed

lemma locked_l_removed:
  "move_lines_down (clear_line locked_l_grid 1) 1 = locked_l_after"
proof (rule ext)
  fix c :: cell
  obtain x y where c: "c = (x, y)"
    by (cases c)
  show "move_lines_down (clear_line locked_l_grid 1) 1 c = locked_l_after c"
    unfolding c by (simp add: remove_line_apply locked_l_grid_def locked_l_after_def)
qed

text \<open>
  C3. The claim fails on a grid the game reaches: the L piece locks where it was created
  and completes row 1. The scan reports row 1; \<^verbatim>\<open>do_remove_lines\<close> removes it, resets
  the slot and returns 1, and rows 0..1 shift as claimed, but row 0 is not emptied: its
  three occupied cells stay and now appear in row 1 as well.
\<close>

theorem do_remove_lines_row_0_stays:
  "move_tetrominoe l_spawn locked_l_grid MOVE_DOWN = Some (0, l_spawn, locked_l_grid)
   \<and> get_remove_lines locked_l_grid [- 1, - 1, - 1, - 1] = Some ([1, - 1, - 1, - 1], 1)
   \<and> do_remove_lines locked_l_grid [1, - 1, - 1, - 1]
       = Some (locked_l_after, [- 1, - 1, - 1, - 1], 1)
   \<and> locked_l_after (4, 0) = 0x0400
   \<and> locked_l_after (4, 0) = locked_l_grid (4, 0)"
proof -
  have a1: "tetrominoe_in_grid l_spawn"
    by (simp add: l_spawn_def GRID_SIZE_X_def GRID_SIZE_Y_def)
  have a2: "\<forall>c \<in> set (cells l_spawn). locked_l_grid c = sint (0x0400 :: 16 word)"
    by (simp add: l_spawn_def locked_l_grid_def)
  have a3: "(4, 0) \<in> set (cells l_spawn)"
    by (simp add: l_spawn_def)
  have a4: "blocked l_spawn locked_l_grid (4, 0 + 1)"
    by (simp add: blocked_def l_spawn_def locked_l_grid_def)
  have m: "move_tetrominoe l_spawn locked_l_grid MOVE_DOWN = Some (0, l_spawn, locked_l_grid)"
    using a1 a2 a3 a4 by (rule move_down_one_blocked)
  have s: "get_remove_lines locked_l_grid [- 1, - 1, - 1, - 1] = Some ([1, - 1, - 1, - 1], 1)"
    by code_simp
  have r: "do_remove_lines locked_l_grid [1, - 1, - 1, - 1]
      = Some (locked_l_after, [- 1, - 1, - 1, - 1], 1)"
    using do_remove_lines_single [of 1 locked_l_grid] by (simp add: locked_l_removed)
  have v: "locked_l_after (4, 0) = 0x0400" "locked_l_grid (4, 0) = 0x0400"
    by (simp_all add: locked_l_after_def locked_l_grid_def)
  from m s r v show ?thesis
    by simp
qed

section \<open>Properties of the row-remove step\<close>

lemma row_remove_step_eq:
  assumes "do_remove_lines (grid s) (remove_lines s) = Some (g', rl', n)"
    and "n = 1 \<or> n = 2 \<or> n = 3 \<or> n = 4"
  shows "row_remove_step s =
    Some (s\<lparr>state := STATE_CREATE_PIECE,
            lines := min 9999 (lines s + int n),
            level := (if level s \<noteq> 9 \<and> level s * 10 + 10 \<le> min 9999 (lines s + int n)
                      then level s + 1 else level s),
            score := min 99999999 (score s
                      + (if n = 1 then 40 else if n = 2 then 100 else if n = 3 then 300 else 1200)
                        * (level s + 1)),
            fall_delay := (if level s \<noteq> 9 \<and> level s * 10 + 10 \<le> min 9999 (lines s + int n)
                           then fall_delay s - 10 else fall_delay s),
            grid := g', remove_lines := rl'\<rparr>)"
proof -
  have l: "(if lines s + int n > 9999 then 9999 else lines s + int n) = min 9999 (lines s + int n)"
    by (simp add: min_def)
  have c: "\<And>v :: int. (if v > 99999999 then 99999999 else v) = min 99999999 v"
    by (simp add: min_def)
  from assms(2) show ?thesis
  proof (elim disjE)
    assume "n = 1"
    then show ?thesis
      by (simp add: row_remove_step_def assms(1) Let_def l c)
  next
    assume "n = 2"
    then show ?thesis
      by (simp add: row_remove_step_def assms(1) Let_def l c)
  next
    assume "n = 3"
    then show ?thesis
      by (simp add: row_remove_step_def assms(1) Let_def l c)
  next
    assume "n = 4"
    then show ?thesis
      by (simp add: row_remove_step_def assms(1) Let_def l c)
  qed
qed

text \<open>
  C4, as the code has it. In a game whose counters are in range (level 0..9, score at
  most 99,999,999, lines at most 9,999), the step that removes n rows, n from 1 to 4,
  adds 40, 100, 300 or 1200 times (level + 1) to the score and then caps the score at
  99,999,999: the score grows by exactly that amount unless the sum passes the cap. It
  adds n to the lines and caps them at 9,999. The level goes up by one, and the fall
  delay down by 10, exactly when the level is not 9 and the new line count has reached
  level * 10 + 10. The counters stay in range and the next state is the create-piece
  state.
\<close>

theorem row_remove_step_scoring:
  assumes "do_remove_lines (grid s) (remove_lines s) = Some (g', rl', n)"
    and "1 \<le> n" and "n \<le> 4"
    and "0 \<le> level s" and "level s \<le> 9"
    and "score s \<le> 99999999" and "lines s \<le> 9999"
  shows
    "(let points = (if n = 1 then 40 else if n = 2 then 100 else if n = 3 then 300 else 1200)
                     * (level s + 1);
          lines' = min 9999 (lines s + int n);
          score' = min 99999999 (score s + points);
          up = (level s \<noteq> 9 \<and> level s * 10 + 10 \<le> lines');
          level' = (if up then level s + 1 else level s)
      in row_remove_step s =
           Some (s\<lparr>state := STATE_CREATE_PIECE, lines := lines', level := level',
                   score := score',
                   fall_delay := (if up then fall_delay s - 10 else fall_delay s),
                   grid := g', remove_lines := rl'\<rparr>)
         \<and> (score s + points \<le> 99999999 \<longrightarrow> score' = score s + points)
         \<and> score' \<le> 99999999
         \<and> lines' \<le> 9999
         \<and> 0 \<le> level' \<and> level' \<le> 9)"
proof -
  have n: "n = 1 \<or> n = 2 \<or> n = 3 \<or> n = 4"
    using assms(2,3) by arith
  note eq = row_remove_step_eq [OF assms(1) n]
  have lv: "0 \<le> (if level s \<noteq> 9 \<and> level s * 10 + 10 \<le> min 9999 (lines s + int n)
                  then level s + 1 else level s)"
    "(if level s \<noteq> 9 \<and> level s * 10 + 10 \<le> min 9999 (lines s + int n)
      then level s + 1 else level s) \<le> 9"
    using assms(4,5) by simp_all
  show ?thesis
    unfolding Let_def using eq lv by simp
qed

lemma two_lines_removed:
  "do_remove_lines two_lines_grid [18, 19, - 1, - 1]
    = Some (two_lines_after, [- 1, - 1, - 1, - 1], 2)"
proof -
  have "move_lines_down (clear_line (move_lines_down (clear_line two_lines_grid 18) 18) 19) 19
      = two_lines_after"
  proof (rule ext)
    fix c :: cell
    obtain x y where c: "c = (x, y)"
      by (cases c)
    show "move_lines_down (clear_line (move_lines_down (clear_line two_lines_grid 18) 18) 19) 19 c
        = two_lines_after c"
      unfolding c by (auto simp: remove_line_apply two_lines_grid_def two_lines_after_def)
  qed
  then show ?thesis
    using do_remove_lines_double [of 18 19 two_lines_grid] by simp
qed

theorem row_remove_step_scoring_witness:
  "do_remove_lines (grid game_level_up) (remove_lines game_level_up)
     = Some (two_lines_after, [- 1, - 1, - 1, - 1], 2)
   \<and> 0 \<le> level game_level_up \<and> level game_level_up \<le> 9
   \<and> score game_level_up \<le> 99999999 \<and> lines game_level_up \<le> 9999
   \<and> row_remove_step game_level_up =
       Some (game_level_up\<lparr>state := STATE_CREATE_PIECE, lines := 11, level := 1,
               score := 460, fall_delay := 80,
               grid := two_lines_after, remove_lines := [- 1, - 1, - 1, - 1]\<rparr>)"
proof -
  have r: "do_remove_lines (grid game_level_up) (remove_lines game_level_up)
      = Some (two_lines_after, [- 1, - 1, - 1, - 1], 2)"
    by (simp add: game_level_up_def two_lines_removed)
  have n: "(1 :: nat) \<le> 2" "(2 :: nat) \<le> 4"
    by simp_all
  have c: "0 \<le> level game_level_up" "level game_level_up \<le> 9"
    "score game_level_up \<le> 99999999" "lines game_level_up \<le> 9999"
    by (simp_all add: game_level_up_def)
  have v: "level game_level_up = 0" "score game_level_up = 360" "lines game_level_up = 9"
    "fall_delay game_level_up = 90"
    by (simp_all add: game_level_up_def INITIAL_FALL_DELAY_def)
  from row_remove_step_scoring [OF r n c]
  have "row_remove_step game_level_up =
      Some (game_level_up\<lparr>state := STATE_CREATE_PIECE, lines := 11, level := 1,
              score := 460, fall_delay := 80,
              grid := two_lines_after, remove_lines := [- 1, - 1, - 1, - 1]\<rparr>)"
    by (simp add: Let_def v)
  with r c show ?thesis
    by simp
qed

lemma one_line_removed:
  "do_remove_lines one_line_grid [19, - 1, - 1, - 1] = Some (empty_grid, [- 1, - 1, - 1, - 1], 1)"
proof -
  have "move_lines_down (clear_line one_line_grid 19) 19 = empty_grid"
  proof (rule ext)
    fix c :: cell
    obtain x y where c: "c = (x, y)"
      by (cases c)
    show "move_lines_down (clear_line one_line_grid 19) 19 c = empty_grid c"
      unfolding c by (simp add: remove_line_apply one_line_grid_def empty_grid_def)
  qed
  then show ?thesis
    using do_remove_lines_single [of 19 one_line_grid] by simp
qed

text \<open>
  The claim as stated fails next to the cap: at level 9 with a score of 99,999,980, one
  removed row is worth 400 points, but the score only grows to 99,999,999.
\<close>

theorem row_remove_step_counterexample:
  "do_remove_lines (grid game_near_cap) (remove_lines game_near_cap)
     = Some (empty_grid, [- 1, - 1, - 1, - 1], 1)
   \<and> level game_near_cap = 9
   \<and> score game_near_cap = 99999980
   \<and> map_option score (row_remove_step game_near_cap) = Some 99999999
   \<and> (99999999 :: int) \<noteq> 99999980 + 40 * (9 + 1)"
  by (simp add: row_remove_step_def game_near_cap_def one_line_removed)

end
